theory Spec2Isabelle
  imports Main "HOL-Library.Word" "HOL-Library.Stream"
begin

unbundle bit_operations_syntax

section \<open>Machine types and the outside world\<close>

text \<open>
  The firmware is C for a 32-bit microcontroller: \<open>int\<close> and \<open>size_t\<close> are 32 bits wide.
  A C \<open>int\<close> is a 32-bit word read as two's complement (\<open>sint\<close>); \<open>uint8_t\<close>,
  \<open>uint16_t\<close> and \<open>uint32_t\<close> are words of their width. Loop counters that cannot wrap
  (they stay below a bound of their own type) are natural numbers; the one counter that
  can wrap, in the drain loop of \<open>proto_read_request\<close>, is a 16-bit word.
\<close>

type_synonym u8 = "8 word"
type_synonym u16 = "16 word"
type_synonym u32 = "32 word"
type_synonym c_int = "32 word"

text \<open>
  Everything the firmware does to its surroundings is recorded, in order, in one trace:
  pin writes, pin function changes, sleeps, bytes clocked out on the SPI bus, SPI reads,
  and bytes written to the host. The SPI instance is the same in every call and is left out.
\<close>

datatype gpio_function = GPIO_FUNC_SPI | GPIO_FUNC_SIO | GPIO_FUNC_NULL

datatype event =
    Gpio_Put int bool
  | Gpio_Set_Function int gpio_function
  | Sleep_Ms nat
  | Sleep_Us nat
  | Spi_Write "u8 list"
  | Spi_Read u8 nat
  | Putchar u8
  | Stdio_Flush

text \<open>
  The state holds the static variables of \<^verbatim>\<open>icsp.c\<close> (\<open>lvp_active\<close> and the pin numbers),
  the LED pin of the board (a constant of the SDK, not of this repository), the bytes the
  target will answer on the data line (\<open>miso\<close>), the values \<open>getchar\<close> will return
  (\<open>stdin\<close>: a byte, or a negative error code), the contents of uninitialised stack bytes
  (\<open>uninit\<close>), and the trace. Both inputs are infinite streams: a blocking read always
  returns eventually.
\<close>

record state =
  lvp_active :: bool
  mclrPin :: int
  dataOutPin :: int
  dataInPin :: int
  clockPin :: int
  ledPin :: int
  miso :: "u8 stream"
  stdin :: "int stream"
  uninit :: "nat \<Rightarrow> u8"
  trace :: "event list"

definition emit :: "event \<Rightarrow> state \<Rightarrow> state" where
  "emit e s = s\<lparr>trace := trace s @ [e]\<rparr>"

definition gpio_put :: "int \<Rightarrow> bool \<Rightarrow> state \<Rightarrow> state" where
  "gpio_put pin v s = emit (Gpio_Put pin v) s"

definition gpio_set_function :: "int \<Rightarrow> gpio_function \<Rightarrow> state \<Rightarrow> state" where
  "gpio_set_function pin f s = emit (Gpio_Set_Function pin f) s"

definition sleep_ms :: "nat \<Rightarrow> state \<Rightarrow> state" where
  "sleep_ms n s = emit (Sleep_Ms n) s"

definition sleep_us :: "nat \<Rightarrow> state \<Rightarrow> state" where
  "sleep_us n s = emit (Sleep_Us n) s"

definition spi_write_blocking :: "u8 list \<Rightarrow> state \<Rightarrow> state" where
  "spi_write_blocking bytes s = emit (Spi_Write bytes) s"

text \<open>\<open>spi_read_blocking(spi, tx, dst, n)\<close> clocks in the next \<open>n\<close> bytes of the data line.\<close>

definition spi_read_blocking :: "u8 \<Rightarrow> nat \<Rightarrow> state \<Rightarrow> u8 list \<times> state" where
  "spi_read_blocking tx n s =
     (stake n (miso s), emit (Spi_Read tx n) (s\<lparr>miso := sdrop n (miso s)\<rparr>))"

definition getchar :: "state \<Rightarrow> int \<times> state" where
  "getchar s = (shd (stdin s), s\<lparr>stdin := stl (stdin s)\<rparr>)"

definition putchar :: "u8 \<Rightarrow> state \<Rightarrow> state" where
  "putchar b s = emit (Putchar b) s"

definition stdio_flush :: "state \<Rightarrow> state" where
  "stdio_flush s = emit Stdio_Flush s"

section \<open>The ICSP engine (icsp.c)\<close>

definition ICSP_COMMAND_LOAD_PC :: u8 where "ICSP_COMMAND_LOAD_PC = 0x80"
definition ICSP_COMMAND_BULK_ERASE :: u8 where "ICSP_COMMAND_BULK_ERASE = 0x18"
definition ICSP_COMMAND_PAGE_ERASE :: u8 where "ICSP_COMMAND_PAGE_ERASE = 0xF0"
definition ICSP_COMMAND_READ_DATA :: u8 where "ICSP_COMMAND_READ_DATA = 0xFC"
definition ICSP_COMMAND_READ_DATA_INCPC :: u8 where "ICSP_COMMAND_READ_DATA_INCPC = 0xFE"
definition ICSP_COMMAND_INCREMENT_ADDRESS :: u8 where "ICSP_COMMAND_INCREMENT_ADDRESS = 0xF8"
definition ICSP_COMMAND_LOAD_DATA :: u8 where "ICSP_COMMAND_LOAD_DATA = 0x00"
definition ICSP_COMMAND_LOAD_DATA_INCPC :: u8 where "ICSP_COMMAND_LOAD_DATA_INCPC = 0x02"
definition ICSP_COMMAND_BEGIN_PROG_INT :: u8 where "ICSP_COMMAND_BEGIN_PROG_INT = 0xE0"

definition ICSP_ERASE_REGION_EEPROM :: c_int where "ICSP_ERASE_REGION_EEPROM = push_bit 0 1"
definition ICSP_ERASE_REGION_FLASH :: c_int where "ICSP_ERASE_REGION_FLASH = push_bit 1 1"
definition ICSP_ERASE_REGION_USER_ID :: c_int where "ICSP_ERASE_REGION_USER_ID = push_bit 2 1"
definition ICSP_ERASE_REGION_CONFIG :: c_int where "ICSP_ERASE_REGION_CONFIG = push_bit 3 1"

definition MCHP :: "u8 list" where
  "MCHP = [0x4D, 0x43, 0x48, 0x50]"

definition icsp_enter_lvp :: "state \<Rightarrow> state" where
  "icsp_enter_lvp s =
     (if lvp_active s then s
      else let s1 = gpio_put (mclrPin s) False s;
               s2 = sleep_ms 50 s1;
               s3 = spi_write_blocking MCHP s2;
               s4 = sleep_ms 5 s3
           in s4\<lparr>lvp_active := True\<rparr>)"

definition icsp_exit_lvp :: "state \<Rightarrow> state" where
  "icsp_exit_lvp s =
     (if \<not> lvp_active s then s
      else let s1 = gpio_put (mclrPin s) True s;
               s2 = sleep_ms 5 s1
           in s2\<lparr>lvp_active := False\<rparr>)"

text \<open>
  The three payload bytes of \<open>icsp_send_command\<close>:
  \<^verbatim>\<open>(payload >> 15) & 0xFF, (payload >> 7) & 0xFF, (payload << 1) & 0xFF\<close>, each cast to
  \<open>uint8_t\<close>. They are computed only when \<open>payload >= 0\<close>, where the arithmetic right
  shift of C is the logical one.
\<close>

definition payload_bytes :: "c_int \<Rightarrow> u8 list" where
  "payload_bytes payload =
     [ucast (drop_bit 15 payload AND 0xFF),
      ucast (drop_bit 7 payload AND 0xFF),
      ucast (push_bit 1 payload AND 0xFF)]"

definition command_bytes :: "u8 \<Rightarrow> c_int \<Rightarrow> u8 list" where
  "command_bytes cmd payload =
     (if 0 \<le> sint payload then cmd # payload_bytes payload else [cmd])"

definition icsp_send_command :: "u8 \<Rightarrow> c_int \<Rightarrow> state \<Rightarrow> state" where
  "icsp_send_command cmd payload s = spi_write_blocking (command_bytes cmd payload) s"

definition icsp_cmd_loadpc :: "c_int \<Rightarrow> state \<Rightarrow> state" where
  "icsp_cmd_loadpc pc s = icsp_send_command ICSP_COMMAND_LOAD_PC pc s"

definition icsp_cmd_erase :: "c_int \<Rightarrow> state \<Rightarrow> state" where
  "icsp_cmd_erase regions s =
     (let s1 = (if regions AND ICSP_ERASE_REGION_CONFIG \<noteq> 0
                then sleep_ms 26 (icsp_send_command ICSP_COMMAND_BULK_ERASE (- 1)
                       (icsp_cmd_loadpc 0x300000 s))
                else s);
          s2 = (if regions AND ICSP_ERASE_REGION_FLASH \<noteq> 0
                then sleep_ms 26 (icsp_send_command ICSP_COMMAND_BULK_ERASE (- 1)
                       (icsp_cmd_loadpc 0x000000 s1))
                else s1);
          s3 = (if regions AND ICSP_ERASE_REGION_EEPROM \<noteq> 0
                then sleep_ms 26 (icsp_send_command ICSP_COMMAND_BULK_ERASE (- 1)
                       (icsp_cmd_loadpc 0x310000 s2))
                else s2);
          s4 = (if regions AND ICSP_ERASE_REGION_USER_ID \<noteq> 0
                then sleep_ms 26 (icsp_send_command ICSP_COMMAND_BULK_ERASE (- 1)
                       (icsp_cmd_loadpc 0x200000 s3))
                else s3)
      in s4)"

definition icsp_cmd_erase_page :: "state \<Rightarrow> state" where
  "icsp_cmd_erase_page s = sleep_ms 11 (icsp_send_command ICSP_COMMAND_PAGE_ERASE (- 1) s)"

text \<open>
  The value \<open>icsp_cmd_read_data\<close> returns from the three bytes it clocked in:
  \<^verbatim>\<open>(data[0] << 15) | (data[1] << 7) | (data[2] >> 1)\<close>, computed in \<open>int\<close> and
  truncated to \<open>uint16_t\<close>.
\<close>

definition decode_data :: "u8 list \<Rightarrow> u16" where
  "decode_data d =
     ucast (push_bit 15 (ucast (d ! 0) :: c_int) OR push_bit 7 (ucast (d ! 1) :: c_int)
            OR drop_bit 1 (ucast (d ! 2) :: c_int))"

definition icsp_cmd_read_data :: "bool \<Rightarrow> state \<Rightarrow> u16 \<times> state" where
  "icsp_cmd_read_data increment_pc s =
     (if dataInPin s = - 1 then (0xFFFF, s)
      else let cmd = (if increment_pc then ICSP_COMMAND_READ_DATA_INCPC
                      else ICSP_COMMAND_READ_DATA);
               s1 = spi_write_blocking [cmd] s;
               s2 = gpio_set_function (dataOutPin s1) GPIO_FUNC_NULL s1;
               s3 = gpio_set_function (dataInPin s2) GPIO_FUNC_SPI s2;
               (d, s4) = spi_read_blocking 0 3 s3;
               s5 = gpio_set_function (dataInPin s4) GPIO_FUNC_NULL s4;
               s6 = gpio_set_function (dataOutPin s5) GPIO_FUNC_SPI s5
           in (decode_data d, s6))"

definition icsp_cmd_increment_pc :: "state \<Rightarrow> state" where
  "icsp_cmd_increment_pc s = icsp_send_command ICSP_COMMAND_INCREMENT_ADDRESS (- 1) s"

definition icsp_cmd_write_data :: "u16 \<Rightarrow> bool \<Rightarrow> state \<Rightarrow> state" where
  "icsp_cmd_write_data v increment_pc s =
     (let s1 = icsp_send_command
                 (if increment_pc then ICSP_COMMAND_LOAD_DATA_INCPC else ICSP_COMMAND_LOAD_DATA)
                 (ucast v) s;
          s2 = icsp_send_command ICSP_COMMAND_BEGIN_PROG_INT (- 1) s1
      in sleep_us 75 s2)"

definition icsp_get_device_id :: "state \<Rightarrow> u16 \<times> state" where
  "icsp_get_device_id s = icsp_cmd_read_data False (sleep_us 1 (icsp_cmd_loadpc 0x3FFFFE s))"

definition icsp_get_revision_id :: "state \<Rightarrow> u16 \<times> state" where
  "icsp_get_revision_id s = icsp_cmd_read_data False (sleep_us 1 (icsp_cmd_loadpc 0x3FFFFC s))"

text \<open>
  \<open>icsp_read_data_8bit(addr, data, size)\<close>: the loop body stores the low byte of one word
  read at \<open>data[i]\<close>; the loop runs for \<open>i = 0, \<dots>, size - 1\<close>.
\<close>

definition read_data_8bit_body :: "nat \<Rightarrow> u8 list \<times> state \<Rightarrow> u8 list \<times> state" where
  "read_data_8bit_body i ds =
     (let (w, s') = icsp_cmd_read_data True (snd ds)
      in ((fst ds)[i := ucast (w AND 0xFF)], s'))"

definition icsp_read_data_8bit :: "c_int \<Rightarrow> u8 list \<Rightarrow> nat \<Rightarrow> state \<Rightarrow> u8 list \<times> state" where
  "icsp_read_data_8bit addr data sz s =
     fold read_data_8bit_body [0..<sz] (data, icsp_cmd_loadpc addr s)"

text \<open>
  \<open>icsp_program_page\<close>: the parameter \<open>size\<close> (here \<open>sz\<close>) is a \<open>size_t\<close>, and
  \<open>size - 1\<close> wraps at 0, so it is a 32-bit word here. The only caller passes 64 and an array of 64 words.
\<close>

definition icsp_program_page :: "c_int \<Rightarrow> u16 list \<Rightarrow> u32 \<Rightarrow> bool \<Rightarrow> state \<Rightarrow> u32 \<times> state" where
  "icsp_program_page addr data sz erase s =
     (let s1 = icsp_cmd_loadpc addr s;
          s2 = (if erase then icsp_cmd_erase_page s1 else s1);
          s3 = fold (\<lambda>i. icsp_send_command ICSP_COMMAND_LOAD_DATA_INCPC (ucast (data ! i)))
                 [0..<unat (sz - 1)] s2;
          s4 = icsp_send_command ICSP_COMMAND_LOAD_DATA (ucast (data ! unat (sz - 1))) s3;
          s5 = icsp_send_command ICSP_COMMAND_BEGIN_PROG_INT (- 1) s4;
          s6 = sleep_ms 3 s5
      in (sz, s6))"

definition icsp_program_page_8bit :: "c_int \<Rightarrow> u8 list \<Rightarrow> nat \<Rightarrow> bool \<Rightarrow> state \<Rightarrow> nat \<times> state" where
  "icsp_program_page_8bit addr data sz erase s =
     (let s1 = icsp_cmd_loadpc addr s;
          s2 = (if erase then icsp_cmd_erase_page s1 else s1);
          s3 = fold (\<lambda>i st. sleep_ms 11 (icsp_cmd_write_data (ucast (data ! i)) True st))
                 [0..<sz] s2
      in (sz, s3))"

text \<open>
  \<open>icsp_program_config\<close>: one explicit word write, as the body of the loop and again for
  the odd last byte. The loop \<^verbatim>\<open>for (i = 0; i + 1 < byte_count; i += 2)\<close> is the recursion
  on \<open>i\<close>; \<open>(int)i\<close> is the conversion of \<open>i\<close> to a 32-bit word.
\<close>

definition config_write_word :: "c_int \<Rightarrow> u16 \<Rightarrow> state \<Rightarrow> state" where
  "config_write_word pc word s =
     (let s1 = icsp_cmd_loadpc pc s;
          s2 = icsp_send_command ICSP_COMMAND_LOAD_DATA (ucast word) s1;
          s3 = icsp_send_command ICSP_COMMAND_BEGIN_PROG_INT (- 1) s2
      in sleep_ms 11 s3)"

function program_config_loop :: "c_int \<Rightarrow> u8 list \<Rightarrow> nat \<Rightarrow> nat \<Rightarrow> state \<Rightarrow> state" where
  "program_config_loop addr data byte_count i s =
     (if i + 1 < byte_count
      then let word = ucast ((ucast (data ! i) :: c_int)
                             OR push_bit 8 (ucast (data ! (i + 1)) :: c_int)) :: u16
           in program_config_loop addr data byte_count (i + 2)
                (config_write_word (addr + of_nat i) word s)
      else s)"
  by pat_completeness auto
termination
  by (relation "measure (\<lambda>(addr, data, byte_count, i, s). byte_count - i)") auto

declare program_config_loop.simps [simp del]

definition icsp_program_config :: "c_int \<Rightarrow> u8 list \<Rightarrow> nat \<Rightarrow> state \<Rightarrow> state" where
  "icsp_program_config addr data byte_count s =
     (let s1 = program_config_loop addr data byte_count 0 s
      in if odd byte_count
         then let word = ucast ((ucast (data ! (byte_count - 1)) :: c_int) OR 0xFF00) :: u16
              in config_write_word (addr + of_nat (byte_count - 1)) word s1
         else s1)"

section \<open>The host protocol (protocol.h, protocol.c)\<close>

definition STATUS_OK :: u8 where "STATUS_OK = 0x00"
definition STATUS_ERR_CMD :: u8 where "STATUS_ERR_CMD = 0x01"
definition STATUS_ERR_CRC :: u8 where "STATUS_ERR_CRC = 0x02"
definition STATUS_ERR_TARGET :: u8 where "STATUS_ERR_TARGET = 0x03"
definition STATUS_ERR_PAYLOAD :: u8 where "STATUS_ERR_PAYLOAD = 0x05"

definition PROTO_MAX_PAYLOAD :: nat where "PROTO_MAX_PAYLOAD = 256"

text \<open>The request structure; \<open>req_payload\<close> is the array of \<open>PROTO_MAX_PAYLOAD\<close> bytes.\<close>

record proto_request =
  req_cmd :: u8
  req_len :: u16
  req_payload :: "u8 list"

definition proto_get_u32 :: "u8 list \<Rightarrow> u32" where
  "proto_get_u32 p =
     ucast (p ! 0) OR push_bit 8 (ucast (p ! 1)) OR push_bit 16 (ucast (p ! 2))
       OR push_bit 24 (ucast (p ! 3))"

definition proto_get_u16 :: "u8 list \<Rightarrow> u16" where
  "proto_get_u16 p = ucast (p ! 0) OR push_bit 8 (ucast (p ! 1))"

text \<open>
  \<open>proto_crc8\<close>: \<open>crc8_shift\<close> is one turn of the inner loop, \<open>crc8_inner j\<close> runs \<open>j\<close>
  turns of it, and the outer loop folds over the first \<open>len\<close> bytes of \<open>data\<close>.
\<close>

definition crc8_shift :: "u8 \<Rightarrow> u8" where
  "crc8_shift crc = (if crc AND 0x80 \<noteq> 0 then push_bit 1 crc XOR 0x07 else push_bit 1 crc)"

primrec crc8_inner :: "nat \<Rightarrow> u8 \<Rightarrow> u8" where
  "crc8_inner 0 crc = crc"
| "crc8_inner (Suc j) crc = crc8_inner j (crc8_shift crc)"

definition proto_crc8 :: "u8 list \<Rightarrow> nat \<Rightarrow> u8" where
  "proto_crc8 data n = fold (\<lambda>b crc. crc8_inner 8 (crc XOR b)) (take n data) 0x00"

text \<open>
  \<open>proto_send_response\<close>: \<open>payload\<close> is \<open>None\<close> for a null pointer. The frame buffer has
  room for \<open>PROTO_MAX_PAYLOAD\<close> payload bytes and is not initialised: without a copy its
  payload bytes are whatever the stack holds. Every caller passes \<open>len \<le> 256\<close> and, when
  \<open>len > 0\<close>, an array of at least \<open>len\<close> bytes.
\<close>

definition proto_send_response :: "u8 \<Rightarrow> u8 list option \<Rightarrow> u16 \<Rightarrow> state \<Rightarrow> state" where
  "proto_send_response status payload n s =
     (let header = [status, ucast (n AND 0xFF), ucast (drop_bit 8 n)];
          body = (if 0 < n \<and> payload \<noteq> None then take (unat n) (the payload)
                  else map (uninit s) [3..<3 + unat n]);
          frame = header @ body @ [proto_crc8 (header @ body) (3 + unat n)];
          s1 = fold putchar frame s
      in stdio_flush s1)"

definition proto_send_ok :: "state \<Rightarrow> state" where
  "proto_send_ok s = proto_send_response STATUS_OK None 0 s"

definition proto_send_error :: "u8 \<Rightarrow> state \<Rightarrow> state" where
  "proto_send_error status s = proto_send_response status None 0 s"

text \<open>
  \<open>PICO_ERROR_TIMEOUT\<close> is a negative constant of the SDK; the test that uses it also
  tests \<open>c < 0\<close>.
\<close>

definition PICO_ERROR_TIMEOUT :: int where "PICO_ERROR_TIMEOUT = - 1"

text \<open>
  The drain loop \<^verbatim>\<open>for (uint16_t i = 0; i < req->len + 1; i++) getchar();\<close>. The
  comparison is made in \<open>int\<close>, the counter is 16 bits wide and wraps. The loop need not
  end, so its result is optional: \<open>None\<close> means that it never returns.
\<close>

partial_function (option) drain_loop :: "u16 \<Rightarrow> u16 \<Rightarrow> state \<Rightarrow> state option" where
  "drain_loop i n s =
     (if uint i < uint n + 1 then drain_loop (i + 1) n (snd (getchar s)) else Some s)"

text \<open>
  The payload loop: \<open>Inl\<close> is the early \<open>return false\<close> on a negative \<open>getchar\<close>,
  \<open>Inr\<close> the normal end. The counter stays below \<open>req->len\<close>.
\<close>

function read_payload_loop ::
  "nat \<Rightarrow> nat \<Rightarrow> u8 list \<Rightarrow> state \<Rightarrow> (u8 list \<times> state) + (u8 list \<times> state)" where
  "read_payload_loop i n buf s =
     (if i < n
      then let (c, s1) = getchar s
           in if c < 0 then Inl (buf, s1)
              else read_payload_loop (i + 1) n (buf[i := word_of_int c]) s1
      else Inr (buf, s))"
  by pat_completeness auto
termination
  by (relation "measure (\<lambda>(i, n, buf, s). n - i)") auto

declare read_payload_loop.simps [simp del]

definition proto_read_request ::
  "proto_request \<Rightarrow> state \<Rightarrow> (bool \<times> proto_request \<times> state) option" where
  "proto_read_request req s =
     (let (c, s1) = getchar s
      in if c = PICO_ERROR_TIMEOUT \<or> c < 0 then Some (False, req, s1)
         else
           let req1 = req\<lparr>req_cmd := word_of_int c\<rparr>;
               (lo, s2) = getchar s1;
               (hi, s3) = getchar s2
           in if lo < 0 \<or> hi < 0 then Some (False, req1, s3)
              else
                let req2 = req1\<lparr>req_len := word_of_int lo OR push_bit 8 (word_of_int hi)\<rparr>
                in if PROTO_MAX_PAYLOAD < unat (req_len req2)
                   then (case drain_loop 0 (req_len req2) s3 of
                           None \<Rightarrow> None
                         | Some s4 \<Rightarrow> Some (False, req2\<lparr>req_len := 0\<rparr>, s4))
                   else
                     (case read_payload_loop 0 (unat (req_len req2)) (req_payload req2) s3 of
                        Inl (buf, s4) \<Rightarrow> Some (False, req2\<lparr>req_payload := buf\<rparr>, s4)
                      | Inr (buf, s4) \<Rightarrow>
                          let req3 = req2\<lparr>req_payload := buf\<rparr>;
                              (c', s5) = getchar s4
                          in if c' < 0 then Some (False, req3, s5)
                             else
                               let received_crc = (word_of_int c' :: u8);
                                   frame = [req_cmd req3, ucast (req_len req3 AND 0xFF),
                                            ucast (drop_bit 8 (req_len req3))]
                                           @ take (unat (req_len req3)) (req_payload req3);
                                   expected_crc = proto_crc8 frame (3 + unat (req_len req3))
                               in if received_crc \<noteq> expected_crc
                                  then Some (False, req3, proto_send_error STATUS_ERR_CRC s5)
                                  else Some (True, req3, s5)))"

section \<open>The target catalog (target.c)\<close>

record target_info =
  ti_id :: u16
  ti_mask :: u16
  ti_name :: string
  ti_flash_size :: u32

definition targets :: "target_info list" where
  "targets =
     [\<lparr>ti_id = 0x6C20, ti_mask = 0xFF00, ti_name = ''PIC18F27K42'', ti_flash_size = 131072\<rparr>,
      \<lparr>ti_id = 0x6C40, ti_mask = 0xFF00, ti_name = ''PIC18F27K42'', ti_flash_size = 131072\<rparr>,
      \<lparr>ti_id = 0x6C00, ti_mask = 0xFF00, ti_name = ''PIC18F26K42'', ti_flash_size = 65536\<rparr>,
      \<lparr>ti_id = 0x6CE0, ti_mask = 0xFF00, ti_name = ''PIC18F25K42'', ti_flash_size = 32768\<rparr>,
      \<lparr>ti_id = 0x6CC0, ti_mask = 0xFF00, ti_name = ''PIC18F24K42'', ti_flash_size = 16384\<rparr>,
      \<lparr>ti_id = 0x6CA0, ti_mask = 0xFF00, ti_name = ''PIC18F47K42'', ti_flash_size = 131072\<rparr>,
      \<lparr>ti_id = 0x6C80, ti_mask = 0xFF00, ti_name = ''PIC18F46K42'', ti_flash_size = 65536\<rparr>,
      \<lparr>ti_id = 0x6C60, ti_mask = 0xFF00, ti_name = ''PIC18F45K42'', ti_flash_size = 32768\<rparr>,
      \<lparr>ti_id = 0x74E0, ti_mask = 0xFFE0, ti_name = ''PIC18F15Q41'', ti_flash_size = 32768\<rparr>,
      \<lparr>ti_id = 0x7500, ti_mask = 0xFFE0, ti_name = ''PIC18F05Q41'', ti_flash_size = 16384\<rparr>,
      \<lparr>ti_id = 0x7520, ti_mask = 0xFFE0, ti_name = ''PIC18F14Q41'', ti_flash_size = 16384\<rparr>,
      \<lparr>ti_id = 0x7540, ti_mask = 0xFFE0, ti_name = ''PIC18F04Q41'', ti_flash_size = 8192\<rparr>,
      \<lparr>ti_id = 0x7560, ti_mask = 0xFFE0, ti_name = ''PIC18F16Q41'', ti_flash_size = 65536\<rparr>,
      \<lparr>ti_id = 0x7580, ti_mask = 0xFFE0, ti_name = ''PIC18F06Q41'', ti_flash_size = 32768\<rparr>,
      \<lparr>ti_id = 0x75A0, ti_mask = 0xFFE0, ti_name = ''PIC16F16Q40'', ti_flash_size = 16384\<rparr>,
      \<lparr>ti_id = 0x75C0, ti_mask = 0xFFE0, ti_name = ''PIC18F06Q40'', ti_flash_size = 32768\<rparr>,
      \<lparr>ti_id = 0x75E0, ti_mask = 0xFFE0, ti_name = ''PIC18F15Q40'', ti_flash_size = 32768\<rparr>,
      \<lparr>ti_id = 0x7600, ti_mask = 0xFFE0, ti_name = ''PIC18F05Q40'', ti_flash_size = 16384\<rparr>,
      \<lparr>ti_id = 0x7620, ti_mask = 0xFFE0, ti_name = ''PIC18F14Q40'', ti_flash_size = 16384\<rparr>,
      \<lparr>ti_id = 0x7640, ti_mask = 0xFFE0, ti_name = ''PIC18F04Q40'', ti_flash_size = 8192\<rparr>]"

definition target_identify :: "u16 \<Rightarrow> string" where
  "target_identify device_id =
     (case find (\<lambda>t. device_id AND ti_mask t = ti_id t AND ti_mask t) targets of
        Some t \<Rightarrow> ti_name t
      | None \<Rightarrow> ''Unknown'')"

definition target_flash_size :: "u16 \<Rightarrow> u32" where
  "target_flash_size device_id =
     (case find (\<lambda>t. device_id AND ti_mask t = ti_id t AND ti_mask t) targets of
        Some t \<Rightarrow> ti_flash_size t
      | None \<Rightarrow> 0)"

section \<open>The command dispatcher (main.c)\<close>

definition CMD_DIAG :: u8 where "CMD_DIAG = 0x01"
definition CMD_ERASE :: u8 where "CMD_ERASE = 0x02"
definition CMD_WRITE_PAGE :: u8 where "CMD_WRITE_PAGE = 0x03"
definition CMD_WRITE_CONFIG :: u8 where "CMD_WRITE_CONFIG = 0x04"
definition CMD_WRITE_EEPROM :: u8 where "CMD_WRITE_EEPROM = 0x05"
definition CMD_READ :: u8 where "CMD_READ = 0x06"
definition CMD_RESET_TARGET :: u8 where "CMD_RESET_TARGET = 0x07"
definition CMD_TEST_EEPROM :: u8 where "CMD_TEST_EEPROM = 0x08"
definition CMD_VERSION :: u8 where "CMD_VERSION = 0x09"

definition VERSION_STRING :: string where "VERSION_STRING = ''picokit 1.0''"
definition FLASH_ROW_WORDS :: nat where "FLASH_ROW_WORDS = 64"
definition FLASH_ROW_BYTES :: nat where "FLASH_ROW_BYTES = 128"

definition target_check :: "state \<Rightarrow> bool \<times> state" where
  "target_check s =
     (let s1 = icsp_enter_lvp s;
          (ident, s2) = icsp_get_device_id s1
      in if ident = 0xFFFF \<or> ident = 0 then (False, icsp_exit_lvp s2) else (True, s2))"

definition handle_diag :: "proto_request \<Rightarrow> state \<Rightarrow> state" where
  "handle_diag req s =
     (let s1 = icsp_enter_lvp s;
          (dev_id, s2) = icsp_get_device_id s1;
          (rev_id, s3) = icsp_get_revision_id s2;
          s4 = icsp_exit_lvp s3
      in if dev_id = 0xFFFF \<or> dev_id = 0 then proto_send_error STATUS_ERR_TARGET s4
         else
           let name = target_identify dev_id;
               name_len = length name;
               resp = [ucast (dev_id AND 0xFF), ucast (drop_bit 8 dev_id AND 0xFF),
                       ucast (rev_id AND 0xFF), ucast (drop_bit 8 rev_id AND 0xFF)]
                      @ map of_char name @ map (uninit s4) [4 + name_len..<4 + 64]
           in proto_send_response STATUS_OK (Some resp) (of_nat (4 + name_len)) s4)"

definition handle_erase :: "proto_request \<Rightarrow> state \<Rightarrow> state" where
  "handle_erase req s =
     (let (present, s1) = target_check s
      in if \<not> present then proto_send_error STATUS_ERR_TARGET s1
         else
           let s2 = icsp_cmd_erase (ICSP_ERASE_REGION_FLASH OR ICSP_ERASE_REGION_EEPROM
                                    OR ICSP_ERASE_REGION_CONFIG OR ICSP_ERASE_REGION_USER_ID) s1;
               s3 = icsp_exit_lvp s2
           in proto_send_ok s3)"

text \<open>
  The conversion loop of \<open>handle_write_page\<close>:
  \<^verbatim>\<open>words[i] = data[i * 2] | (data[i * 2 + 1] << 8)\<close> for \<open>i\<close> below \<open>FLASH_ROW_WORDS\<close>.
\<close>

definition page_words :: "u8 list \<Rightarrow> u16 list" where
  "page_words data =
     map (\<lambda>i. ucast ((ucast (data ! (i * 2)) :: c_int)
                     OR push_bit 8 (ucast (data ! (i * 2 + 1)) :: c_int)) :: u16)
       [0..<FLASH_ROW_WORDS]"

definition handle_write_page :: "proto_request \<Rightarrow> state \<Rightarrow> state" where
  "handle_write_page req s =
     (if unat (req_len req) < 4 + FLASH_ROW_BYTES then proto_send_error STATUS_ERR_PAYLOAD s
      else
        let addr = proto_get_u32 (req_payload req);
            data = drop 4 (req_payload req);
            words = page_words data;
            s1 = icsp_enter_lvp s;
            (n, s2) = icsp_program_page addr words (of_nat FLASH_ROW_WORDS) True s1
        in proto_send_ok s2)"

definition handle_write_config :: "proto_request \<Rightarrow> state \<Rightarrow> state" where
  "handle_write_config req s =
     (if unat (req_len req) < 6 then proto_send_error STATUS_ERR_PAYLOAD s
      else
        let addr = proto_get_u32 (req_payload req);
            data_len = proto_get_u16 (drop 4 (req_payload req))
        in if unat (req_len req) < 6 + unat data_len then proto_send_error STATUS_ERR_PAYLOAD s
           else
             let s1 = icsp_enter_lvp s;
                 s2 = icsp_program_config addr (drop 6 (req_payload req)) (unat data_len) s1
             in proto_send_ok s2)"

definition handle_write_eeprom :: "proto_request \<Rightarrow> state \<Rightarrow> state" where
  "handle_write_eeprom req s =
     (if unat (req_len req) < 6 then proto_send_error STATUS_ERR_PAYLOAD s
      else
        let addr = proto_get_u32 (req_payload req);
            data_len = proto_get_u16 (drop 4 (req_payload req))
        in if unat (req_len req) < 6 + unat data_len then proto_send_error STATUS_ERR_PAYLOAD s
           else
             let s1 = icsp_enter_lvp s;
                 (n, s2) = icsp_program_page_8bit addr (drop 6 (req_payload req))
                             (unat data_len) False s1
             in proto_send_ok s2)"

text \<open>
  \<open>handle_read\<close>: the body of the word loop reads one word, stores its low byte at
  \<open>buf[i * 2]\<close> and, when \<open>i * 2 + 1 < read_len\<close>, its high byte at \<open>buf[i * 2 + 1]\<close>.
  The buffer \<open>buf\<close> of \<open>PROTO_MAX_PAYLOAD\<close> bytes starts uninitialised.
\<close>

definition read_words_body :: "nat \<Rightarrow> nat \<Rightarrow> u8 list \<times> state \<Rightarrow> u8 list \<times> state" where
  "read_words_body read_len i bs =
     (let (w, s') = icsp_cmd_read_data True (snd bs);
          buf1 = (fst bs)[i * 2 := ucast (w AND 0xFF)];
          buf2 = (if i * 2 + 1 < read_len
                  then buf1[i * 2 + 1 := ucast (drop_bit 8 w AND 0xFF)] else buf1)
      in (buf2, s'))"

definition handle_read :: "proto_request \<Rightarrow> state \<Rightarrow> state" where
  "handle_read req s =
     (if unat (req_len req) < 6 then proto_send_error STATUS_ERR_PAYLOAD s
      else
        let addr = proto_get_u32 (req_payload req);
            read_len = proto_get_u16 (drop 4 (req_payload req))
        in if PROTO_MAX_PAYLOAD < unat read_len then proto_send_error STATUS_ERR_PAYLOAD s
           else
             let s1 = icsp_enter_lvp s;
                 buf0 = map (uninit s1) [0..<PROTO_MAX_PAYLOAD];
                 (buf, s2) =
                   (if 0x310000 \<le> addr
                    then icsp_read_data_8bit addr buf0 (unat read_len) s1
                    else
                      let s1' = icsp_cmd_loadpc addr s1;
                          num_words = (unat read_len + 1) div 2
                      in fold (read_words_body (unat read_len)) [0..<num_words] (buf0, s1'))
             in proto_send_response STATUS_OK (Some buf) read_len s2)"

definition handle_reset_target :: "proto_request \<Rightarrow> state \<Rightarrow> state" where
  "handle_reset_target req s = proto_send_ok (sleep_ms 10 (icsp_exit_lvp s))"

definition handle_test_eeprom :: "proto_request \<Rightarrow> state \<Rightarrow> state" where
  "handle_test_eeprom req s =
     (let s1 = icsp_enter_lvp s;
          (ident, s2) = icsp_get_device_id s1
      in if ident = 0xFFFF \<or> ident = 0
         then proto_send_error STATUS_ERR_TARGET (icsp_exit_lvp s2)
         else
           let test_addr = (0x310000 :: c_int);
               test_data = [0xBB, 0xCC, 0xDD, 0xEE :: u8];
               read_data = [0, 0, 0, 0 :: u8];
               s3 = icsp_cmd_erase ICSP_ERASE_REGION_EEPROM s2;
               s4 = icsp_enter_lvp (sleep_ms 10 (icsp_exit_lvp s3));
               s5 = icsp_cmd_loadpc test_addr s4;
               s6 = fold (\<lambda>i st. icsp_cmd_increment_pc
                            (sleep_ms 11 (icsp_cmd_write_data (ucast (test_data ! i)) False st)))
                      [0..<4] s5;
               s7 = icsp_enter_lvp (sleep_ms 10 (icsp_exit_lvp s6));
               s8 = icsp_cmd_loadpc test_addr s7;
               (read_data', s9) = fold read_data_8bit_body [0..<4] (read_data, s8);
               s10 = icsp_exit_lvp s9;
               result = (if test_data = read_data' then 1 else 0 :: u8)
           in proto_send_response STATUS_OK (Some [result]) 1 s10)"

definition handle_version :: "proto_request \<Rightarrow> state \<Rightarrow> state" where
  "handle_version req s =
     proto_send_response STATUS_OK (Some (map of_char VERSION_STRING))
       (of_nat (length VERSION_STRING)) s"

text \<open>The \<open>switch\<close> of \<open>main\<close>, and one turn of its endless loop.\<close>

definition dispatch :: "proto_request \<Rightarrow> state \<Rightarrow> state" where
  "dispatch req s =
     (if req_cmd req = CMD_DIAG then handle_diag req s
      else if req_cmd req = CMD_ERASE then handle_erase req s
      else if req_cmd req = CMD_WRITE_PAGE then handle_write_page req s
      else if req_cmd req = CMD_WRITE_CONFIG then handle_write_config req s
      else if req_cmd req = CMD_WRITE_EEPROM then handle_write_eeprom req s
      else if req_cmd req = CMD_READ then handle_read req s
      else if req_cmd req = CMD_RESET_TARGET then handle_reset_target req s
      else if req_cmd req = CMD_TEST_EEPROM then handle_test_eeprom req s
      else if req_cmd req = CMD_VERSION then handle_version req s
      else proto_send_error STATUS_ERR_CMD s)"

definition main_iteration :: "proto_request \<Rightarrow> state \<Rightarrow> (proto_request \<times> state) option" where
  "main_iteration req s =
     (case proto_read_request req s of
        None \<Rightarrow> None
      | Some (ok, req', s1) \<Rightarrow>
          if \<not> ok then Some (req', s1)
          else
            let s2 = gpio_put (ledPin s1) True s1;
                s3 = dispatch req' s2;
                s4 = gpio_put (ledPin s3) False s3
            in Some (req', s4))"

section \<open>Reference definitions\<close>

text \<open>
  The definitions of this section are not translations of code: they say, in the words of
  the specification, what the code is compared with.
\<close>

text \<open>
  CRC-8 as a shift register: polynomial \<open>x^8 + x^2 + x + 1\<close> (\<open>0x07\<close>), register
  initially \<open>0x00\<close>, message bits fed most significant bit first, nothing reflected, no
  final exclusive-or. One message bit is combined with the top bit of the register; the
  register moves left by one and the polynomial is added when the combination is 1.
\<close>

definition byte_bits_msb :: "u8 \<Rightarrow> bool list" where
  "byte_bits_msb b = map (bit b) (rev [0..<8])"

definition crc8_feed :: "bool \<Rightarrow> u8 \<Rightarrow> u8" where
  "crc8_feed b r = (if bit r 7 \<noteq> b then push_bit 1 r XOR 0x07 else push_bit 1 r)"

definition crc8_spec :: "u8 list \<Rightarrow> u8" where
  "crc8_spec msg = fold crc8_feed (concat (map byte_bits_msb msg)) 0x00"

text \<open>
  The erase regions in the order of the specification, each with its bit of the mask and
  its base address, and the events of one bulk erase at a base address.
\<close>

definition erase_order :: "(c_int \<times> c_int) list" where
  "erase_order =
     [(ICSP_ERASE_REGION_CONFIG, 0x300000), (ICSP_ERASE_REGION_FLASH, 0x000000),
      (ICSP_ERASE_REGION_EEPROM, 0x310000), (ICSP_ERASE_REGION_USER_ID, 0x200000)]"

definition bulk_erase_at :: "c_int \<Rightarrow> event list" where
  "bulk_erase_at base =
     [Spi_Write (command_bytes ICSP_COMMAND_LOAD_PC base),
      Spi_Write [ICSP_COMMAND_BULK_ERASE], Sleep_Ms 26]"

text \<open>
  A state for concrete runs: the pins are those \<open>main\<close> passes to \<open>icsp_init\<close>, the
  session is inactive, the target answers \<open>0xFF\<close> and the host sends nothing.
\<close>

definition example_state :: state where
  "example_state =
     \<lparr>lvp_active = False, mclrPin = 29, dataOutPin = 7, dataInPin = 4, clockPin = 6,
      ledPin = 25, miso = sconst 0xFF, stdin = sconst (- 1), uninit = (\<lambda>_. 0), trace = []\<rparr>"

text \<open>
  The events of one explicit word write of \<open>icsp_program_config\<close> at address \<open>pc\<close>:
  load PC, load data without increment, begin programming, 11 ms of sleep. The words of
  a configuration block: consecutive bytes paired, low byte first; an odd last byte gets
  the high byte \<open>0xFF\<close>. \<open>config_events\<close> lists the word writes of a block whose first
  byte has offset \<open>i\<close>.
\<close>

definition config_word_write :: "c_int \<Rightarrow> u16 \<Rightarrow> event list" where
  "config_word_write pc w =
     [Spi_Write (command_bytes ICSP_COMMAND_LOAD_PC pc),
      Spi_Write (ICSP_COMMAND_LOAD_DATA # payload_bytes (ucast w)),
      Spi_Write [ICSP_COMMAND_BEGIN_PROG_INT], Sleep_Ms 11]"

fun config_words :: "u8 list \<Rightarrow> u16 list" where
  "config_words (lo # hi # rest) = (ucast lo OR push_bit 8 (ucast hi)) # config_words rest"
| "config_words [lo] = [ucast lo OR 0xFF00]"
| "config_words [] = []"

fun config_events :: "c_int \<Rightarrow> nat \<Rightarrow> u8 list \<Rightarrow> event list" where
  "config_events addr i (lo # hi # rest) =
     config_word_write (addr + of_nat i) (ucast lo OR push_bit 8 (ucast hi))
     @ config_events addr (i + 2) rest"
| "config_events addr i [lo] = config_word_write (addr + of_nat i) (ucast lo OR 0xFF00)"
| "config_events addr i [] = []"

text \<open>The bytes written to the host, in order, among the events of a trace.\<close>

fun sent_bytes :: "event list \<Rightarrow> u8 list" where
  "sent_bytes [] = []"
| "sent_bytes (Putchar b # es) = b # sent_bytes es"
| "sent_bytes (e # es) = sent_bytes es"

text \<open>A request structure with an empty payload array of \<open>PROTO_MAX_PAYLOAD\<close> bytes.\<close>

definition example_request :: proto_request where
  "example_request = \<lparr>req_cmd = 0, req_len = 0, req_payload = replicate 256 0\<rparr>"

text \<open>The events of \<open>icsp_enter_lvp\<close>: none when the session is already active.\<close>

definition enter_lvp_events :: "state \<Rightarrow> event list" where
  "enter_lvp_events s =
     (if lvp_active s then []
      else [Gpio_Put (mclrPin s) False, Sleep_Ms 50, Spi_Write MCHP, Sleep_Ms 5])"

text \<open>
  A WRITE_CONFIG-shaped request (address \<open>0x300000\<close>, two data bytes) and the bytes of a
  WRITE_PAGE frame (address 0, 128 bytes \<open>0xAA\<close>) for concrete runs.
\<close>

definition example_config_request :: proto_request where
  "example_config_request =
     \<lparr>req_cmd = 0x04, req_len = 8,
      req_payload = [0x00, 0x00, 0x30, 0x00, 0x02, 0x00, 0xFF, 0xFF] @ replicate 248 0\<rparr>"

definition write_page_frame :: "u8 list" where
  "write_page_frame =
     [0x03, 0x84, 0x00] @ [0x00, 0x00, 0x00, 0x00] @ replicate 128 0xAA @ [0x95]"

text \<open>
  The example state with a target that answers a read with the three bytes of the packing
  of \<open>0xAAAA\<close>.
\<close>

definition echo_state :: state where
  "echo_state = example_state\<lparr>miso := [0x01, 0x55, 0x54] @- sconst 0xFF\<rparr>"

text \<open>
  The words returned by \<open>k\<close> successive calls of \<open>icsp_cmd_read_data(true)\<close>, with the
  state after the last; the events of one such call on the bus (none without an input
  pin); and the bytes of a list of words, each word low byte first.
\<close>

fun successive_reads :: "nat \<Rightarrow> state \<Rightarrow> u16 list \<times> state" where
  "successive_reads 0 s = ([], s)"
| "successive_reads (Suc k) s =
     (let (w, s1) = icsp_cmd_read_data True s;
          (ws, s2) = successive_reads k s1
      in (w # ws, s2))"

definition read_data_events :: "bool \<Rightarrow> state \<Rightarrow> event list" where
  "read_data_events increment_pc s =
     (if dataInPin s = - 1 then []
      else [Spi_Write [if increment_pc then ICSP_COMMAND_READ_DATA_INCPC
                       else ICSP_COMMAND_READ_DATA],
            Gpio_Set_Function (dataOutPin s) GPIO_FUNC_NULL,
            Gpio_Set_Function (dataInPin s) GPIO_FUNC_SPI,
            Spi_Read 0 3,
            Gpio_Set_Function (dataInPin s) GPIO_FUNC_NULL,
            Gpio_Set_Function (dataOutPin s) GPIO_FUNC_SPI])"



definition write_config_frame :: "u8 list" where
  "write_config_frame =
     [0x04, 0x08, 0x00] @ [0x00, 0x00, 0x30, 0x00, 0x02, 0x00, 0xFF, 0xFF] @ [0x98]"

section \<open>Properties of the ICSP engine\<close>

lemmas hw_defs = emit_def gpio_put_def gpio_set_function_def sleep_ms_def sleep_us_def
  spi_write_blocking_def spi_read_blocking_def putchar_def stdio_flush_def

lemma trace_emit [simp]: "trace (emit e s) = trace s @ [e]"
  by (simp add: emit_def)

lemma lvp_active_emit [simp]: "lvp_active (emit e s) = lvp_active s"
  by (simp add: emit_def)

lemma trace_icsp_send_command [simp]:
  "trace (icsp_send_command cmd payload s) = trace s @ [Spi_Write (command_bytes cmd payload)]"
  by (simp add: icsp_send_command_def spi_write_blocking_def)

lemma command_bytes_no_payload [simp]: "command_bytes cmd (- 1) = [cmd]"
  by (simp add: command_bytes_def)

lemma and_255: "(x::'a::len word) AND 0xFF = take_bit 8 x"
  by (simp add: take_bit_eq_mask mask_eq_exp_minus_1)

lemma and_128: "(x AND 0x80 \<noteq> 0) = bit (x::u8) 7"
  using and_exp_eq_0_iff_not_bit [of x 7] by simp

lemma bit_times_2: "bit (x * 2 :: 'a::len word) n = (0 < n \<and> n < LENGTH('a) \<and> bit x (n - 1))"
  using bit_double_iff [of x n] by (auto simp: mult.commute bit_simps)

subsection \<open>The session flag\<close>

text \<open>
  Claim C9. Entering an active session and leaving an inactive one change nothing at all
  (no event is added to the trace, the flag keeps its value); entering from the inactive
  state ends active and leaving from the active state ends inactive. Both operations are
  idempotent.
\<close>

theorem lvp_enter_exit_idempotent:
  "(lvp_active s \<longrightarrow> icsp_enter_lvp s = s) \<and>
   (\<not> lvp_active s \<longrightarrow> icsp_exit_lvp s = s) \<and>
   (\<not> lvp_active s \<longrightarrow> lvp_active (icsp_enter_lvp s)) \<and>
   (lvp_active s \<longrightarrow> \<not> lvp_active (icsp_exit_lvp s)) \<and>
   icsp_enter_lvp (icsp_enter_lvp s) = icsp_enter_lvp s \<and>
   icsp_exit_lvp (icsp_exit_lvp s) = icsp_exit_lvp s"
  by (simp add: icsp_enter_lvp_def icsp_exit_lvp_def Let_def)

theorem lvp_enter_exit_idempotent_witness:
  "\<not> lvp_active example_state \<and>
   icsp_exit_lvp example_state = example_state \<and>
   lvp_active (icsp_enter_lvp example_state) \<and>
   lvp_active (example_state\<lparr>lvp_active := True\<rparr>) \<and>
   icsp_enter_lvp (example_state\<lparr>lvp_active := True\<rparr>) = example_state\<lparr>lvp_active := True\<rparr> \<and>
   \<not> lvp_active (icsp_exit_lvp (example_state\<lparr>lvp_active := True\<rparr>))"
  using lvp_enter_exit_idempotent [of example_state]
    lvp_enter_exit_idempotent [of "example_state\<lparr>lvp_active := True\<rparr>"]
  by (simp add: example_state_def)

subsection \<open>Erase order\<close>

text \<open>
  Claim C1. For every region mask, the events of \<open>icsp_cmd_erase\<close> are the bulk erases of
  exactly the selected regions, in the order CONFIG, FLASH, EEPROM, USER_ID: each is the
  load-PC command of the base address of the region (\<open>0x300000\<close>, \<open>0x000000\<close>,
  \<open>0x310000\<close>, \<open>0x200000\<close>), the bulk-erase opcode alone, and a sleep of 26 ms. When
  CONFIG and FLASH are both selected the trace begins with the erase at the CONFIG base,
  followed at once by the erase at the FLASH base.
\<close>

theorem erase_regions_in_order:
  "trace (icsp_cmd_erase regions s) =
     trace s @ concat (map (\<lambda>(b, base). bulk_erase_at base)
                        (filter (\<lambda>(b, base). regions AND b \<noteq> 0) erase_order)) \<and>
   map (\<lambda>(b, base). bulk_erase_at base) erase_order =
     [[Spi_Write [0x80, 0x60, 0, 0], Spi_Write [0x18], Sleep_Ms 26],
      [Spi_Write [0x80, 0x00, 0, 0], Spi_Write [0x18], Sleep_Ms 26],
      [Spi_Write [0x80, 0x62, 0, 0], Spi_Write [0x18], Sleep_Ms 26],
      [Spi_Write [0x80, 0x40, 0, 0], Spi_Write [0x18], Sleep_Ms 26]] \<and>
   (regions AND ICSP_ERASE_REGION_CONFIG \<noteq> 0 \<and> regions AND ICSP_ERASE_REGION_FLASH \<noteq> 0 \<longrightarrow>
      (\<exists>rest. trace (icsp_cmd_erase regions s) =
                trace s @ bulk_erase_at 0x300000 @ bulk_erase_at 0x000000 @ rest))"
  by (simp add: icsp_cmd_erase_def icsp_cmd_loadpc_def sleep_ms_def erase_order_def
      bulk_erase_at_def Let_def command_bytes_def payload_bytes_def
      ICSP_COMMAND_LOAD_PC_def ICSP_COMMAND_BULK_ERASE_def)

theorem erase_regions_in_order_witness:
  "(11 :: c_int) AND ICSP_ERASE_REGION_CONFIG \<noteq> 0 \<and>
   (11 :: c_int) AND ICSP_ERASE_REGION_FLASH \<noteq> 0 \<and>
   trace (icsp_cmd_erase 11 example_state) =
     [Spi_Write [0x80, 0x60, 0, 0], Spi_Write [0x18], Sleep_Ms 26,
      Spi_Write [0x80, 0x00, 0, 0], Spi_Write [0x18], Sleep_Ms 26,
      Spi_Write [0x80, 0x62, 0, 0], Spi_Write [0x18], Sleep_Ms 26]"
  using erase_regions_in_order [of 11 example_state]
  by (simp add: example_state_def erase_order_def bulk_erase_at_def command_bytes_def
      payload_bytes_def ICSP_COMMAND_LOAD_PC_def ICSP_COMMAND_BULK_ERASE_def
      ICSP_ERASE_REGION_CONFIG_def ICSP_ERASE_REGION_FLASH_def ICSP_ERASE_REGION_EEPROM_def
      ICSP_ERASE_REGION_USER_ID_def)

subsection \<open>Payload encoding\<close>

lemma decode_payload_bytes: "decode_data (payload_bytes (ucast (v :: u16))) = v"
proof (rule bit_word_eqI)
  fix n :: nat
  assume "n < LENGTH(16)"
  then have "n \<in> set [0, 1, 2, 3, 4, 5, 6, 7, 8, 9, 10, 11, 12, 13, 14, 15]"
    by simp arith
  then show "bit (decode_data (payload_bytes (ucast v))) n = bit v n"
    unfolding decode_data_def payload_bytes_def and_255 set_simps insert_iff empty_iff
    by (elim disjE FalseE) (simp_all add: bit_simps bit_times_2 numeral_2_eq_2)
qed

lemma sint_ucast_u16: "0 \<le> sint (ucast (v :: u16) :: c_int)"
proof -
  have "\<not> bit v 31" using bit_imp_le_length [of v 31] by auto
  then show ?thesis by (simp add: sint_uint bit_simps signed_take_bit_eq_if_positive)
qed

lemma icsp_cmd_read_data_value:
  "dataInPin s \<noteq> - 1 \<Longrightarrow> fst (icsp_cmd_read_data inc s) = decode_data (stake 3 (miso s))"
  by (simp add: icsp_cmd_read_data_def Let_def hw_defs)

lemma stake_3_Stream: "stake 3 (a ## b ## c ## st) = [a, b, c]"
  by (simp add: numeral_3_eq_3)

text \<open>
  Claim C2. For every 16-bit value \<open>v\<close>, \<open>icsp_send_command\<close> with payload \<open>v\<close> clocks
  out the opcode and the three bytes of the 24-bit packing; the reconstruction applied to
  these three bytes gives back \<open>v\<close>; and \<open>icsp_cmd_read_data\<close>, with an input pin
  configured and a target that answers with these three bytes, returns \<open>v\<close>.
\<close>

theorem encode_decode_inverse:
  fixes v :: u16
  assumes "dataInPin s \<noteq> - 1" and "stake 3 (miso s) = payload_bytes (ucast v)"
  shows "trace (icsp_send_command opcode (ucast v) s0) =
           trace s0 @ [Spi_Write (opcode # payload_bytes (ucast v))] \<and>
         decode_data (payload_bytes (ucast v)) = v \<and>
         fst (icsp_cmd_read_data inc s) = v"
  using assms
  by (simp add: decode_payload_bytes command_bytes_def sint_ucast_u16 icsp_cmd_read_data_value)

theorem encode_decode_inverse_witness:
  "dataInPin echo_state \<noteq> - 1 \<and>
   stake 3 (miso echo_state) = payload_bytes (ucast (0xAAAA :: u16)) \<and>
   trace (icsp_send_command 0x00 (ucast (0xAAAA :: u16)) example_state) =
     [Spi_Write [0x00, 0x01, 0x55, 0x54]] \<and>
   fst (icsp_cmd_read_data True echo_state) = 0xAAAA"
proof -
  have d: "dataInPin echo_state \<noteq> - 1"
    by (simp add: echo_state_def example_state_def)
  have m: "stake 3 (miso echo_state) = payload_bytes (ucast (0xAAAA :: u16))"
    by (simp add: echo_state_def stake_3_Stream payload_bytes_def)
  have t: "trace example_state = []"
    by (simp add: example_state_def)
  from encode_decode_inverse [OF d m, of "0x00" example_state True] d m t
  show ?thesis by (simp add: payload_bytes_def)
qed

subsection \<open>CRC-8\<close>

lemma crc8_shift_xor:
  "j \<le> 7 \<Longrightarrow>
   crc8_shift (c XOR push_bit j b) = crc8_feed (bit b (7 - j)) c XOR push_bit (Suc j) b"
  by (auto simp: crc8_shift_def crc8_feed_def and_128 bit_simps push_bit_Suc [symmetric]
      bit_xor_iff xor.assoc xor.commute xor.left_commute
      simp del: push_bit_of_Suc_0 push_bit_Suc)

lemma crc8_inner_bits:
  "j + k = 8 \<Longrightarrow>
   crc8_inner k (c XOR push_bit j b) = fold crc8_feed (map (bit b) (rev [0..<k])) c"
proof (induction k arbitrary: c j)
  case 0
  then show ?case by simp
next
  case (Suc k)
  then have j: "j \<le> 7" and k: "7 - j = k" by simp_all
  from crc8_shift_xor [OF j, of c b] Suc.IH [of "Suc j" "crc8_feed (bit b k) c"] Suc.prems
  show ?case by (simp add: k)
qed

lemma crc8_byte: "crc8_inner 8 (c XOR b) = fold crc8_feed (byte_bits_msb b) c"
  using crc8_inner_bits [of 0 8 c b] by (simp add: byte_bits_msb_def)

lemma crc8_fold:
  "fold (\<lambda>b crc. crc8_inner 8 (crc XOR b)) xs c =
   fold crc8_feed (concat (map byte_bits_msb xs)) c"
  by (induction xs arbitrary: c) (simp_all add: crc8_byte)

lemma proto_crc8_spec: "proto_crc8 data n = crc8_spec (take n data)"
  by (simp add: proto_crc8_def crc8_spec_def crc8_fold)

lemma crc8_spec_check_value: "crc8_spec (map of_char ''123456789'') = 0xF4"
  by code_simp

lemma crc8_spec_version_header: "crc8_spec [0x09, 0x00, 0x00] = 0x3A"
  by code_simp

text \<open>
  Claim C7. \<open>proto_crc8\<close> is CRC-8 with polynomial \<open>0x07\<close> and initial value \<open>0x00\<close>, most
  significant bit first and unreflected, of exactly the first \<open>n\<close> bytes of its argument
  (the reference \<open>crc8_spec\<close>, whose value on the text \<open>123456789\<close> is the published check
  value \<open>0xF4\<close>). The CRC of no bytes is \<open>0x00\<close>; equal inputs give equal outputs; the CRC
  of \<open>[0x09, 0x00, 0x00]\<close> is \<open>0x3A\<close>.
\<close>

theorem proto_crc8_is_crc8:
  "proto_crc8 data n = crc8_spec (take n data) \<and>
   proto_crc8 [] 0 = 0x00 \<and>
   (take n data = take n data' \<longrightarrow> proto_crc8 data n = proto_crc8 data' n) \<and>
   proto_crc8 [0x09, 0x00, 0x00] 3 = 0x3A"
  by (simp add: proto_crc8_spec crc8_spec_version_header) (simp add: crc8_spec_def)

theorem proto_crc8_is_crc8_witness:
  "take 3 [0x09, 0x00, 0x00, 0x01 :: u8] = take 3 [0x09, 0x00, 0x00, 0x02] \<and>
   proto_crc8 [0x09, 0x00, 0x00, 0x01] 3 = proto_crc8 [0x09, 0x00, 0x00, 0x02] 3 \<and>
   proto_crc8 [0x09, 0x00, 0x00, 0x01] 3 = crc8_spec [0x09, 0x00, 0x00]"
  using proto_crc8_is_crc8 [of "[0x09, 0x00, 0x00, 0x01]" 3 "[0x09, 0x00, 0x00, 0x02]"]
  by (simp add: proto_crc8_spec)

subsection \<open>Configuration words\<close>

lemma icsp_send_command_eq:
  "icsp_send_command c p s = s\<lparr>trace := trace s @ [Spi_Write (command_bytes c p)]\<rparr>"
  by (simp add: icsp_send_command_def hw_defs)

lemma command_bytes_u16:
  "command_bytes c (ucast (w :: u16)) = c # payload_bytes (ucast w)"
  by (simp add: command_bytes_def sint_ucast_u16)

lemma config_write_word_eq:
  "config_write_word pc w s = s\<lparr>trace := trace s @ config_word_write pc w\<rparr>"
  by (simp add: config_write_word_def config_word_write_def icsp_cmd_loadpc_def
      icsp_send_command_eq command_bytes_u16 hw_defs Let_def)

lemma word_of_bytes_le:
  "(ucast ((ucast (lo :: u8) :: c_int) OR push_bit 8 (ucast (hi :: u8) :: c_int)) :: u16)
   = ucast lo OR push_bit 8 (ucast hi)"
  by (rule bit_word_eqI) (auto simp: bit_simps)

lemma word_of_byte_padded:
  "(ucast ((ucast (lo :: u8) :: c_int) OR 0xFF00) :: u16) = ucast lo OR 0xFF00"
  by (rule bit_word_eqI) (auto simp: bit_simps)

lemma config_events_enumerate:
  "config_events addr (i + 2 * j) bs =
   concat (map (\<lambda>(k, w). config_word_write (addr + of_nat (i + 2 * k)) w)
             (enumerate j (config_words bs)))"
proof (induction bs arbitrary: j rule: config_words.induct)
  case (1 lo hi rest)
  from 1 [of "Suc j"] show ?case by simp
qed simp_all

lemma config_events_words:
  "config_events addr 0 bs =
   concat (map (\<lambda>(k, w). config_word_write (addr + of_nat (2 * k)) w)
             (enumerate 0 (config_words bs)))"
  using config_events_enumerate [of addr 0 0 bs] by simp

lemma program_config_trace:
  "i \<le> n \<Longrightarrow> n \<le> length data \<Longrightarrow> even i \<Longrightarrow>
   (let s1 = program_config_loop addr data n i s
    in if odd n
       then config_write_word (addr + of_nat (n - 1))
              (ucast ((ucast (data ! (n - 1)) :: c_int) OR 0xFF00)) s1
       else s1)
   = s\<lparr>trace := trace s @ config_events addr i (drop i (take n data))\<rparr>"
proof (induction addr data n i s rule: program_config_loop.induct)
  case (1 addr data n i s)
  show ?case
  proof (cases "i + 1 < n")
    case True
    then have d: "drop i (take n data) = data ! i # data ! (i + 1) # drop (i + 2) (take n data)"
      using "1.prems" by (simp add: Cons_nth_drop_Suc [symmetric])
    from True "1.prems" have "i + 2 \<le> n" "even (i + 2)" by simp_all
    from "1.IH" [OF True refl this(1) "1.prems"(2) this(2)] True
    show ?thesis
      by (subst program_config_loop.simps)
         (simp add: d config_write_word_eq word_of_bytes_le Let_def)
  next
    case False
    show ?thesis
    proof (cases "i = n")
      case True
      with "1.prems" show ?thesis
        by (subst program_config_loop.simps) simp
    next
      case ne: False
      with False "1.prems" have n: "n = Suc i" by arith
      with "1.prems" have d: "drop i (take n data) = [data ! i]"
        by (simp add: take_Suc_conv_app_nth)
      from n "1.prems" d show ?thesis
        by (subst program_config_loop.simps)
           (simp add: config_write_word_eq word_of_byte_padded Let_def)
    qed
  qed
qed

lemma length_config_words: "length (config_words bs) = (length bs + 1) div 2"
  by (induction bs rule: config_words.induct) simp_all

lemma config_words_erased:
  "config_words (replicate n 0xFF) = replicate ((n + 1) div 2) 0xFFFF"
proof (induction "replicate n (0xFF :: u8)" arbitrary: n rule: config_words.induct)
  case (1 lo hi rest)
  then obtain m where "n = Suc (Suc m)" "lo = 0xFF" "hi = 0xFF" "rest = replicate m 0xFF"
    by (cases n; cases "n - 1") (auto)
  with 1 show ?case by simp
next
  case (2 lo)
  then have "n = 1" by (cases n) auto 
  then show ?case by simp
next
  case 3
  then show ?case by simp
qed

lemma icsp_program_config_eq:
  assumes "n \<le> length data"
  shows "icsp_program_config addr data n s =
         s\<lparr>trace := trace s @ config_events addr 0 (take n data)\<rparr>"
  using program_config_trace [of 0 n data addr s] assms
  unfolding icsp_program_config_def Let_def
  by (cases "odd n") simp_all

text \<open>
  Claim C5. For every address and every block of \<open>n\<close> bytes, \<open>icsp_program_config\<close>
  issues one explicit word write (load PC, load data, begin programming, 11 ms of sleep)
  for each of the \<open>(n + 1) div 2\<close> words of the block, in order, the \<open>k\<close>-th at address
  \<open>addr + 2 * k\<close>; the words pair consecutive bytes low byte first, and an odd last byte
  is padded with \<open>0xFF\<close> in the high byte. No word is left out for its value: a block
  of \<open>n\<close> bytes \<open>0xFF\<close> has the \<open>(n + 1) div 2\<close> words \<open>0xFFFF\<close>, each written.
\<close>

theorem program_config_every_word:
  "n \<le> length data \<Longrightarrow>
   trace (icsp_program_config addr data n s) =
     trace s @ concat (map (\<lambda>(k, w). config_word_write (addr + of_nat (2 * k)) w)
                        (enumerate 0 (config_words (take n data)))) \<and>
   length (config_words (take n data)) = (n + 1) div 2 \<and>
   config_words (replicate n 0xFF) = replicate ((n + 1) div 2) 0xFFFF"
  by (simp add: icsp_program_config_eq config_events_words length_config_words
      config_words_erased min_absorb2)


theorem program_config_every_word_witness:
  "(3 :: nat) \<le> length [0xFF, 0xFF, 0xFF :: u8] \<and>
   trace (icsp_program_config 0x300000 [0xFF, 0xFF, 0xFF] 3 example_state) =
     [Spi_Write [0x80, 0x60, 0x00, 0x00], Spi_Write [0x00, 0x01, 0xFF, 0xFE],
      Spi_Write [0xE0], Sleep_Ms 11,
      Spi_Write [0x80, 0x60, 0x00, 0x04], Spi_Write [0x00, 0x01, 0xFF, 0xFE],
      Spi_Write [0xE0], Sleep_Ms 11]"
  using program_config_every_word [of 3 "[0xFF, 0xFF, 0xFF]" "0x300000" example_state]
  by (simp add: example_state_def config_word_write_def command_bytes_def payload_bytes_def
      ICSP_COMMAND_LOAD_PC_def ICSP_COMMAND_LOAD_DATA_def ICSP_COMMAND_BEGIN_PROG_INT_def)

subsection \<open>Frames\<close>

lemma getchar_Stream: "stdin s = x ## st \<Longrightarrow> getchar s = (x, s\<lparr>stdin := st\<rparr>)"
  by (simp add: getchar_def)

lemma fold_putchar: "fold putchar bs s = s\<lparr>trace := trace s @ map Putchar bs\<rparr>"
  by (induction bs arbitrary: s) (simp_all add: hw_defs)

lemma sent_bytes_append: "sent_bytes (xs @ ys) = sent_bytes xs @ sent_bytes ys"
  by (induction xs rule: sent_bytes.induct) simp_all

lemma sent_bytes_Putchar: "sent_bytes (map Putchar bs) = bs"
  by (induction bs) simp_all

lemma ucast_and_255: "(ucast ((n :: u16) AND 0xFF) :: u8) = ucast n"
  by (rule bit_word_eqI) (auto simp: bit_simps and_255)

lemma le16_bytes:
  "(ucast (ucast (n :: u16) :: u8) :: u16) OR push_bit 8 (ucast (ucast (drop_bit 8 n) :: u8)) = n"
  by (rule bit_word_eqI) (auto simp: bit_simps)

lemma proto_send_response_eq:
  "unat n \<le> length body \<Longrightarrow>
   proto_send_response status (Some body) n s =
     s\<lparr>trace := trace s @ map Putchar
         ([status, ucast n, ucast (drop_bit 8 n)] @ take (unat n) body
          @ [proto_crc8 ([status, ucast n, ucast (drop_bit 8 n)] @ take (unat n) body) (3 + unat n)])
        @ [Stdio_Flush]\<rparr>"
  by (cases "n = 0") (simp_all add: proto_send_response_def Let_def fold_putchar hw_defs ucast_and_255 word_greater_zero_iff)

lemma proto_send_response_empty:
  "proto_send_response status None 0 s =
     s\<lparr>trace := trace s @ map Putchar [status, 0, 0, proto_crc8 [status, 0, 0] 3] @ [Stdio_Flush]\<rparr>"
  by (simp add: proto_send_response_def Let_def fold_putchar hw_defs)

lemma read_payload_loop_frame:
  "i \<le> n \<Longrightarrow> n \<le> length buf \<Longrightarrow> length bs = n - i \<Longrightarrow> stdin s = map uint bs @- rest \<Longrightarrow>
   read_payload_loop i n buf s = Inr (take i buf @ bs @ drop n buf, s\<lparr>stdin := rest\<rparr>)"
proof (induction bs arbitrary: i buf s)
  case Nil
  then show ?case by (subst read_payload_loop.simps) simp
next
  case (Cons b bs)
  then have i: "i < n" by simp
  let ?s1 = "s\<lparr>stdin := map uint bs @- rest\<rparr>"
  have g: "getchar s = (uint b, ?s1)" using Cons.prems by (simp add: getchar_Stream)
  have "read_payload_loop (i + 1) n (buf[i := b]) ?s1
        = Inr (take (i + 1) (buf[i := b]) @ bs @ drop n (buf[i := b]), ?s1\<lparr>stdin := rest\<rparr>)"
    using Cons.prems i by (intro Cons.IH) simp_all
  moreover have "take (i + 1) (buf[i := b]) = take i buf @ [b]"
    using Cons.prems i by (simp add: take_Suc_conv_app_nth)
  moreover have "drop n (buf[i := b]) = drop n buf"
    using i by simp
  ultimately show ?case
    using i g by (subst read_payload_loop.simps) simp
qed


lemma drain_loop_65535: "drain_loop i 0xFFFF s = None"
proof -
  have "n \<noteq> 0xFFFF" if "drain_loop i n s = Some y" for y and n :: u16
  proof (rule drain_loop.raw_induct [where P = "\<lambda>i n s y. n \<noteq> 0xFFFF", OF _ that])
    fix f and i n :: u16 and s y
    assume IH: "\<And>i n s y. f i n s = Some y \<Longrightarrow> n \<noteq> 0xFFFF"
      and body: "(if uint i < uint n + 1 then f (i + 1) n (snd (getchar s)) else Some s) = Some y"
    show "n \<noteq> 0xFFFF"
    proof
      assume n: "n = 0xFFFF"
      have "uint i < 65536" using uint_lt2p [of i] by simp
      with n body have "f (i + 1) n (snd (getchar s)) = Some y" by simp
      from IH [OF this] n show False by simp
    qed
  qed
  then show ?thesis by (cases "drain_loop i 0xFFFF s") auto
qed

lemma drain_loop_drains:
  "n \<noteq> 0xFFFF \<Longrightarrow> unat i + k = unat n + 1 \<Longrightarrow>
   drain_loop i n s = Some (s\<lparr>stdin := sdrop k (stdin s)\<rparr>)"
proof (induction k arbitrary: i s)
  case 0
  then have "\<not> uint i < uint n + 1" unfolding uint_nat by linarith
  then show ?case by (subst drain_loop.simps) simp
next
  case (Suc k)
  have "unat n \<noteq> unat (0xFFFF :: u16)" using Suc.prems(1) by (simp only: word_unat_eq_iff not_False_eq_True)
  moreover have "unat n < 65536" using unsigned_less [of n, where ?'a = nat] by simp
  ultimately have "unat n < 65535" by simp
  with Suc.prems have i: "unat i < 65535" by simp
  then have i1: "unat (i + 1) = unat i + 1" by (simp add: unat_word_ariths)
  from Suc.prems have lt: "uint i < uint n + 1" unfolding uint_nat by linarith
  have "drain_loop (i + 1) n (snd (getchar s)) =
          Some ((snd (getchar s))\<lparr>stdin := sdrop k (stdin (snd (getchar s)))\<rparr>)"
    using Suc.prems i1 by (intro Suc.IH) simp_all
  with lt show ?case
    by (subst drain_loop.simps) (simp add: getchar_def)
qed


lemma timeout_negative: "x = PICO_ERROR_TIMEOUT \<or> x < 0 \<longleftrightarrow> x < 0"
  by (auto simp: PICO_ERROR_TIMEOUT_def)

lemma word_of_int_uint_u8: "(word_of_int (uint (b :: u8)) :: u16) = ucast b"
  by (rule bit_word_eqI) (simp add: bit_simps)

lemma proto_read_request_oversized:
  assumes "PROTO_MAX_PAYLOAD < unat (n :: u16)" and "n \<noteq> 0xFFFF"
    and "stdin s = uint c ## uint (ucast n :: u8) ## uint (ucast (drop_bit 8 n) :: u8) ## st"
  shows "proto_read_request req s =
           Some (False, req\<lparr>req_cmd := c, req_len := 0\<rparr>, s\<lparr>stdin := sdrop (unat n + 1) st\<rparr>)"
  using assms drain_loop_drains [of n 0 "unat n + 1" "s\<lparr>stdin := st\<rparr>"]
  by (simp add: proto_read_request_def getchar_def timeout_negative word_of_int_uint_u8 le16_bytes)

lemma proto_read_request_65535:
  "stdin s = uint (c :: u8) ## 0xFF ## 0xFF ## st \<Longrightarrow> proto_read_request req s = None"
  by (simp add: proto_read_request_def getchar_def timeout_negative drain_loop_65535 PROTO_MAX_PAYLOAD_def)

lemma proto_read_request_frame:
  assumes "unat (n :: u16) \<le> PROTO_MAX_PAYLOAD" and "length body = unat n"
    and "unat n \<le> length (req_payload req)"
    and "stdin s = map uint ([c, ucast n, ucast (drop_bit 8 n)] @ body
                   @ [proto_crc8 ([c, ucast n, ucast (drop_bit 8 n)] @ body) (3 + unat n)]) @- rest"
  shows "proto_read_request req s =
           Some (True, req\<lparr>req_cmd := c, req_len := n,
                           req_payload := body @ drop (unat n) (req_payload req)\<rparr>,
                 s\<lparr>stdin := rest\<rparr>)"
proof -
  let ?crc = "proto_crc8 ([c, ucast n, ucast (drop_bit 8 n)] @ body) (3 + unat n)"
  let ?s3 = "s\<lparr>stdin := map uint body @- (uint ?crc ## rest)\<rparr>"
  have "read_payload_loop 0 (unat n) (req_payload req) ?s3 =
          Inr (take 0 (req_payload req) @ body @ drop (unat n) (req_payload req),
               ?s3\<lparr>stdin := uint ?crc ## rest\<rparr>)"
    using assms by (intro read_payload_loop_frame) simp_all
  with assms show ?thesis
    by (simp add: proto_read_request_def getchar_def timeout_negative word_of_int_uint_u8
        le16_bytes ucast_and_255 Let_def)
qed


text \<open>
  Claim C3. For every status byte and every payload of \<open>n \<le> 256\<close> bytes, the bytes that
  \<open>proto_send_response\<close> writes are the status, the length in two bytes, low byte first,
  the payload, and one last byte, the CRC-8 of all the bytes before it; and
  \<open>proto_read_request\<close>, reading these bytes, succeeds and returns the status as the
  command, \<open>n\<close> as the length and the payload in the first \<open>n\<close> bytes of its array.
\<close>

theorem response_frame_round_trip:
  assumes "unat (n :: u16) \<le> PROTO_MAX_PAYLOAD" and "unat n \<le> length body"
    and "length (req_payload req) = PROTO_MAX_PAYLOAD"
    and "stdin t = map uint (sent_bytes (drop (length (trace s))
                     (trace (proto_send_response status (Some body) n s)))) @- rest"
  shows "sent_bytes (drop (length (trace s)) (trace (proto_send_response status (Some body) n s)))
           = [status, ucast n, ucast (drop_bit 8 n)] @ take (unat n) body
             @ [crc8_spec ([status, ucast n, ucast (drop_bit 8 n)] @ take (unat n) body)] \<and>
         proto_read_request req t =
           Some (True,
                 req\<lparr>req_cmd := status, req_len := n,
                     req_payload := take (unat n) body @ drop (unat n) (req_payload req)\<rparr>,
                 t\<lparr>stdin := rest\<rparr>)"
proof -
  let ?covered = "[status, ucast n, ucast (drop_bit 8 n)] @ take (unat n) body"
  have len: "length (take (unat n) body) = unat n" using assms(2) by simp
  have crc: "proto_crc8 ?covered (3 + unat n) = crc8_spec ?covered"
    using len by (simp add: proto_crc8_spec)
  have sent: "sent_bytes (drop (length (trace s))
                (trace (proto_send_response status (Some body) n s)))
              = ?covered @ [proto_crc8 ?covered (3 + unat n)]"
    using assms(2)
    by (simp add: proto_send_response_eq sent_bytes_append sent_bytes_Putchar
        del: map_append append.simps list.map)
  have "proto_read_request req t =
          Some (True,
                req\<lparr>req_cmd := status, req_len := n,
                    req_payload := take (unat n) body @ drop (unat n) (req_payload req)\<rparr>,
                t\<lparr>stdin := rest\<rparr>)"
    using assms(1,3) len assms(4) [unfolded sent]
    by (intro proto_read_request_frame) simp_all
  with sent crc show ?thesis by simp
qed

theorem response_frame_round_trip_witness:
  "unat (2 :: u16) \<le> PROTO_MAX_PAYLOAD \<and> unat (2 :: u16) \<le> length [0x11, 0x22 :: u8] \<and>
   length (req_payload example_request) = PROTO_MAX_PAYLOAD \<and>
   sent_bytes (trace (proto_send_response 0x00 (Some [0x11, 0x22]) 2 example_state))
     = [0x00, 0x02, 0x00, 0x11, 0x22, 0x80] \<and>
   proto_read_request example_request
       (example_state\<lparr>stdin := map uint [0x00, 0x02, 0x00, 0x11, 0x22, 0x80 :: u8] @- sconst (- 1)\<rparr>)
     = Some (True,
             example_request\<lparr>req_cmd := 0x00, req_len := 2,
                              req_payload := [0x11, 0x22] @ replicate 254 0\<rparr>,
             example_state\<lparr>stdin := sconst (- 1)\<rparr>)"
proof -
  have crc: "crc8_spec [0x00, 0x02, 0x00, 0x11, 0x22] = 0x80"
    by code_simp
  have sent: "sent_bytes (drop (length (trace example_state))
                (trace (proto_send_response 0x00 (Some [0x11, 0x22]) 2 example_state)))
              = [0x00, 0x02, 0x00, 0x11, 0x22, 0x80]"
    by (simp add: proto_send_response_eq sent_bytes_append sent_bytes_Putchar proto_crc8_spec crc)
  have tr: "trace example_state = []" by (simp add: example_state_def)
  show ?thesis
    using response_frame_round_trip [of 2 "[0x11, 0x22]" example_request
        "example_state\<lparr>stdin := map uint [0x00, 0x02, 0x00, 0x11, 0x22, 0x80 :: u8] @- sconst (- 1)\<rparr>"
        example_state "0x00" "sconst (- 1)"] sent
    by (simp add: tr example_request_def PROTO_MAX_PAYLOAD_def example_state_def)
qed

subsection \<open>Oversized requests\<close>

text \<open>
  For a length above the maximum and below 65535 the parser consumes \<open>len + 1\<close> values
  after the header, clears the length, leaves the payload array and the trace as they
  were (no response frame) and returns \<open>false\<close>.
\<close>

lemma oversized_request_dropped:
  assumes "PROTO_MAX_PAYLOAD < unat (n :: u16)" and "n \<noteq> 0xFFFF"
    and "stdin s = uint (c :: u8) ## uint (ucast n :: u8) ## uint (ucast (drop_bit 8 n) :: u8) ## st"
  shows "\<exists>req' s'. proto_read_request req s = Some (False, req', s') \<and>
           stdin s' = sdrop (unat n + 1) st \<and> trace s' = trace s \<and>
           req_payload req' = req_payload req \<and> req_len req' = 0"
  using proto_read_request_oversized [OF assms, of req] by simp

text \<open>
  Claim C6, at the length 65535. The bound of the drain loop, \<open>len + 1 = 65536\<close>, is above
  every value of its 16-bit counter: the loop never ends, the parser never returns, and
  every later byte of the host is consumed, whatever the host sends after the header.
\<close>

theorem oversized_length_65535_never_returns:
  "proto_read_request req (s\<lparr>stdin := uint (c :: u8) ## 0xFF ## 0xFF ## st\<rparr>) = None"
  by (rule proto_read_request_65535) simp

subsection \<open>The session flag across the handlers\<close>

lemma lvp_active_send_command [simp]:
  "lvp_active (icsp_send_command c p s) = lvp_active s"
  by (simp add: icsp_send_command_eq)

lemma lvp_active_loadpc [simp]: "lvp_active (icsp_cmd_loadpc pc s) = lvp_active s"
  by (simp add: icsp_cmd_loadpc_def)

lemma lvp_active_enter [simp]: "lvp_active (icsp_enter_lvp s)"
  by (simp add: icsp_enter_lvp_def Let_def)

lemma lvp_active_send_response [simp]:
  "lvp_active (proto_send_response status body n s) = lvp_active s"
  by (simp add: proto_send_response_def Let_def fold_putchar hw_defs)

lemma lvp_active_program_config_loop:
  "lvp_active (program_config_loop addr data n i s) = lvp_active s"
proof (induction addr data n i s rule: program_config_loop.induct)
  case (1 addr data n i s)
  show ?case
  proof (cases "i + 1 < n")
    case True
    with 1 show ?thesis
      by (subst program_config_loop.simps) (simp add: config_write_word_eq Let_def)
  next
    case False
    then show ?thesis by (subst program_config_loop.simps) simp
  qed
qed

lemma lvp_active_program_config [simp]:
  "lvp_active (icsp_program_config addr data n s) = lvp_active s"
  by (simp add: icsp_program_config_def Let_def lvp_active_program_config_loop
      config_write_word_eq)

lemma lvp_active_fold:
  "(\<And>x s. lvp_active (f x s) = lvp_active s) \<Longrightarrow> lvp_active (fold f xs s) = lvp_active s"
  by (induction xs arbitrary: s) simp_all

lemma lvp_active_fold_snd:
  "(\<And>x b s. lvp_active (snd (f x (b, s))) = lvp_active s) \<Longrightarrow>
   lvp_active (snd (fold f xs (b, s))) = lvp_active s"
proof (induction xs arbitrary: b s)
  case Nil
  then show ?case by simp
next
  case (Cons x xs)
  obtain b' s' where f: "f x (b, s) = (b', s')" by (cases "f x (b, s)")
  from Cons.prems [of x b s] f have "lvp_active s' = lvp_active s" by simp
  with Cons.IH [of b' s'] Cons.prems f show ?case by simp
qed

lemma lvp_active_write_data [simp]:
  "lvp_active (icsp_cmd_write_data v inc s) = lvp_active s"
  by (simp add: icsp_cmd_write_data_def Let_def hw_defs)

lemma lvp_active_program_page_8bit [simp]:
  "lvp_active (snd (icsp_program_page_8bit addr data n erase s)) = lvp_active s"
  by (simp add: icsp_program_page_8bit_def Let_def lvp_active_fold icsp_cmd_erase_page_def hw_defs)

lemma lvp_active_read_data [simp]:
  "lvp_active (snd (icsp_cmd_read_data inc s)) = lvp_active s"
  by (simp add: icsp_cmd_read_data_def Let_def hw_defs)

lemma lvp_active_read_bytes:
  "lvp_active (snd (fold read_data_8bit_body xs (b, s))) = lvp_active s"
  by (rule lvp_active_fold_snd) (simp add: read_data_8bit_body_def split_def Let_def)

lemma lvp_active_read_data_8bit [simp]:
  "lvp_active (snd (icsp_read_data_8bit addr data n s)) = lvp_active s"
  by (simp add: icsp_read_data_8bit_def lvp_active_read_bytes)

lemma lvp_active_read_words:
  "lvp_active (snd (fold (read_words_body n) xs (b, s))) = lvp_active s"
  by (rule lvp_active_fold_snd) (simp add: read_words_body_def split_def Let_def)

lemma lvp_active_gpio_put [simp]: "lvp_active (gpio_put pin v s) = lvp_active s"
  by (simp add: hw_defs)

text \<open>
  Claim C10. A WRITE_CONFIG or WRITE_EEPROM request that passes its payload checks (at
  least 6 bytes, and the declared length fits the payload), and a READ request that passes
  its checks (at least 6 bytes, requested length at most 256), leave the session flag
  active: the handler enters LVP and nothing after that clears the flag before the
  response is sent. The turn of the main loop that served such a request ends with the
  flag active, so the next request is read with the session still active.
\<close>

theorem session_stays_active:
  "(6 \<le> unat (req_len req) \<and>
    6 + unat (proto_get_u16 (drop 4 (req_payload req))) \<le> unat (req_len req) \<longrightarrow>
      lvp_active (handle_write_config req s) \<and> lvp_active (handle_write_eeprom req s)) \<and>
   (6 \<le> unat (req_len req) \<and>
    unat (proto_get_u16 (drop 4 (req_payload req))) \<le> PROTO_MAX_PAYLOAD \<longrightarrow>
      lvp_active (handle_read req s)) \<and>
   (proto_read_request req0 s0 = Some (True, req, s) \<and> 6 \<le> unat (req_len req) \<and>
    ((req_cmd req = CMD_WRITE_CONFIG \<or> req_cmd req = CMD_WRITE_EEPROM) \<and>
       6 + unat (proto_get_u16 (drop 4 (req_payload req))) \<le> unat (req_len req) \<or>
     req_cmd req = CMD_READ \<and>
       unat (proto_get_u16 (drop 4 (req_payload req))) \<le> PROTO_MAX_PAYLOAD) \<longrightarrow>
      (\<exists>s'. main_iteration req0 s0 = Some (req, s') \<and> lvp_active s'))"
proof -
  have h: "(6 \<le> unat (req_len r) \<and>
    6 + unat (proto_get_u16 (drop 4 (req_payload r))) \<le> unat (req_len r) \<longrightarrow>
      lvp_active (handle_write_config r t) \<and> lvp_active (handle_write_eeprom r t)) \<and>
   (6 \<le> unat (req_len r) \<and>
    unat (proto_get_u16 (drop 4 (req_payload r))) \<le> PROTO_MAX_PAYLOAD \<longrightarrow>
      lvp_active (handle_read r t))" for r t
    by (simp add: handle_write_config_def handle_write_eeprom_def handle_read_def Let_def
        proto_send_ok_def split_def lvp_active_read_words not_less)
  have d: "dispatch r t = handle_write_config r t" if "req_cmd r = CMD_WRITE_CONFIG" for r t
    using that by (simp add: dispatch_def CMD_DIAG_def CMD_ERASE_def CMD_WRITE_PAGE_def
        CMD_WRITE_CONFIG_def)
  have e: "dispatch r t = handle_write_eeprom r t" if "req_cmd r = CMD_WRITE_EEPROM" for r t
    using that by (simp add: dispatch_def CMD_DIAG_def CMD_ERASE_def CMD_WRITE_PAGE_def
        CMD_WRITE_CONFIG_def CMD_WRITE_EEPROM_def)
  have f: "dispatch r t = handle_read r t" if "req_cmd r = CMD_READ" for r t
    using that by (simp add: dispatch_def CMD_DIAG_def CMD_ERASE_def CMD_WRITE_PAGE_def
        CMD_WRITE_CONFIG_def CMD_WRITE_EEPROM_def CMD_READ_def)
  have m: "\<exists>s'. main_iteration req0 s0 = Some (req, s') \<and> lvp_active s'"
    if "proto_read_request req0 s0 = Some (True, req, s)"
      and "lvp_active (dispatch req (gpio_put (ledPin s) True s))"
    using that by (simp add: main_iteration_def Let_def)
  show ?thesis
    using h [of req s] h [of req "gpio_put (ledPin s) True s"] m d e f
    by (metis (no_types, lifting))
qed

theorem session_stays_active_witness:
  "proto_read_request example_request
      (example_state\<lparr>stdin := map uint write_config_frame @- sconst (- 1)\<rparr>)
     = Some (True, example_config_request, example_state) \<and>
   6 \<le> unat (req_len example_config_request) \<and>
   req_cmd example_config_request = CMD_WRITE_CONFIG \<and>
   6 + unat (proto_get_u16 (drop 4 (req_payload example_config_request)))
     \<le> unat (req_len example_config_request) \<and>
   unat (proto_get_u16 (drop 4 (req_payload example_config_request))) \<le> PROTO_MAX_PAYLOAD \<and>
   \<not> lvp_active example_state \<and>
   lvp_active (handle_write_config example_config_request example_state) \<and>
   lvp_active (handle_write_eeprom example_config_request example_state) \<and>
   lvp_active (handle_read example_config_request example_state) \<and>
   (\<exists>s'. main_iteration example_request
            (example_state\<lparr>stdin := map uint write_config_frame @- sconst (- 1)\<rparr>)
          = Some (example_config_request, s') \<and> lvp_active s')"
proof -
  let ?s0 = "example_state\<lparr>stdin := map uint write_config_frame @- sconst (- 1)\<rparr>"
  let ?body = "[0x00, 0x00, 0x30, 0x00, 0x02, 0x00, 0xFF, 0xFF :: u8]"
  have crc: "crc8_spec ([0x04, 0x08, 0x00] @ ?body) = 0x98"
    by code_simp
  have "proto_read_request example_request ?s0 =
          Some (True, example_request\<lparr>req_cmd := 0x04, req_len := 8,
                  req_payload := ?body @ drop (unat (8 :: u16)) (req_payload example_request)\<rparr>,
                ?s0\<lparr>stdin := sconst (- 1)\<rparr>)"
  proof (rule proto_read_request_frame)
    show "unat (8 :: u16) \<le> PROTO_MAX_PAYLOAD" by (simp add: PROTO_MAX_PAYLOAD_def)
    show "length ?body = unat (8 :: u16)" by simp
    show "unat (8 :: u16) \<le> length (req_payload example_request)"
      by (simp add: example_request_def)
    have "proto_crc8 ([0x04, ucast (8 :: u16), ucast (drop_bit 8 (8 :: u16))] @ ?body)
            (3 + unat (8 :: u16)) = 0x98"
      using crc by (simp add: proto_crc8_spec)
    then show "stdin ?s0 = map uint ([0x04, ucast (8 :: u16), ucast (drop_bit 8 (8 :: u16))]
                  @ ?body
                  @ [proto_crc8 ([0x04, ucast (8 :: u16), ucast (drop_bit 8 (8 :: u16))]
                                 @ ?body) (3 + unat (8 :: u16))]) @- sconst (- 1)"
      by (simp add: write_config_frame_def)
  qed
  then have rd: "proto_read_request example_request ?s0
                 = Some (True, example_config_request, example_state)"
    by (simp add: example_request_def example_config_request_def example_state_def)
  have hyp: "6 \<le> unat (req_len example_config_request)"
    "req_cmd example_config_request = CMD_WRITE_CONFIG"
    "6 + unat (proto_get_u16 (drop 4 (req_payload example_config_request)))
       \<le> unat (req_len example_config_request)"
    "unat (proto_get_u16 (drop 4 (req_payload example_config_request))) \<le> PROTO_MAX_PAYLOAD"
    "\<not> lvp_active example_state"
    by (simp_all add: example_config_request_def proto_get_u16_def PROTO_MAX_PAYLOAD_def
        example_state_def CMD_WRITE_CONFIG_def)
  from session_stays_active [of example_config_request example_state example_request ?s0]
    rd hyp
  show ?thesis by simp
qed

subsection \<open>Page programming\<close>

lemma trace_enter_lvp: "trace (icsp_enter_lvp s) = trace s @ enter_lvp_events s"
  by (simp add: icsp_enter_lvp_def enter_lvp_events_def Let_def hw_defs)

lemma fold_send_command:
  "fold (\<lambda>i. icsp_send_command c (f i)) xs s =
   s\<lparr>trace := trace s @ map (\<lambda>i. Spi_Write (command_bytes c (f i))) xs\<rparr>"
  by (induction xs arbitrary: s) (simp_all add: icsp_send_command_eq)

lemma trace_program_page:
  "trace (snd (icsp_program_page addr data sz erase s)) =
     trace s @ [Spi_Write (command_bytes ICSP_COMMAND_LOAD_PC addr)]
     @ (if erase then [Spi_Write [ICSP_COMMAND_PAGE_ERASE], Sleep_Ms 11] else [])
     @ map (\<lambda>i. Spi_Write (ICSP_COMMAND_LOAD_DATA_INCPC # payload_bytes (ucast (data ! i))))
         [0..<unat (sz - 1)]
     @ [Spi_Write (ICSP_COMMAND_LOAD_DATA # payload_bytes (ucast (data ! unat (sz - 1)))),
        Spi_Write [ICSP_COMMAND_BEGIN_PROG_INT], Sleep_Ms 3]"
  by (simp add: icsp_program_page_def Let_def fold_send_command icsp_cmd_loadpc_def
      icsp_cmd_erase_page_def icsp_send_command_eq command_bytes_u16 hw_defs)

lemma trace_send_ok:
  "trace (proto_send_ok s) = trace s @ map Putchar [0x00, 0x00, 0x00, 0x00] @ [Stdio_Flush]"
proof -
  have "crc8_spec [0x00, 0x00, 0x00] = 0x00" by code_simp
  then show ?thesis
    by (simp add: proto_send_ok_def proto_send_response_empty STATUS_OK_def proto_crc8_spec)
qed

lemma write_page_crc:
  "crc8_spec ([0x03, 0x84, 0x00, 0x00, 0x00, 0x00, 0x00] @ replicate 128 0xAA) = 0x95"
  by code_simp

lemma stdin_enter_lvp [simp]: "stdin (icsp_enter_lvp s) = stdin s"
  by (simp add: icsp_enter_lvp_def Let_def hw_defs)

lemma ledPin_enter_lvp [simp]: "ledPin (icsp_enter_lvp s) = ledPin s"
  by (simp add: icsp_enter_lvp_def Let_def hw_defs)

lemma program_page_fields [simp]:
  "stdin (snd (icsp_program_page addr data sz erase s)) = stdin s"
  "ledPin (snd (icsp_program_page addr data sz erase s)) = ledPin s"
  "lvp_active (snd (icsp_program_page addr data sz erase s)) = lvp_active s"
  by (simp_all add: icsp_program_page_def Let_def fold_send_command icsp_cmd_loadpc_def
      icsp_cmd_erase_page_def icsp_send_command_eq hw_defs)

lemma send_response_fields [simp]:
  "stdin (proto_send_response status body n s) = stdin s"
  "ledPin (proto_send_response status body n s) = ledPin s"
  by (simp_all add: proto_send_response_def Let_def fold_putchar hw_defs)

lemma page_words_AA: "page_words (replicate 128 0xAA @ tail) = replicate 64 0xAAAA"
  unfolding page_words_def FLASH_ROW_WORDS_def
  by (rule nth_equalityI) (simp_all add: nth_append)

lemma trace_handle_write_page_AA:
  assumes "unat (req_len req) = 132"
    and "req_payload req = [0x00, 0x00, 0x00, 0x00] @ replicate 128 0xAA @ tail"
  shows "trace (handle_write_page req s) =
           trace s @ enter_lvp_events s
           @ [Spi_Write [0x80, 0x00, 0x00, 0x00], Spi_Write [0xF0], Sleep_Ms 11]
           @ replicate 63 (Spi_Write [0x02, 0x01, 0x55, 0x54])
           @ [Spi_Write [0x00, 0x01, 0x55, 0x54], Spi_Write [0xE0], Sleep_Ms 3]
           @ map Putchar [0x00, 0x00, 0x00, 0x00] @ [Stdio_Flush]"
proof -
  have addr: "proto_get_u32 (req_payload req) = 0"
    by (simp add: assms(2) proto_get_u32_def)
  have data: "drop 4 (req_payload req) = replicate 128 0xAA @ tail"
    by (simp add: assms(2))
  have pb: "payload_bytes 0xAAAA = [0x01, 0x55, 0x54]"
    by (simp add: payload_bytes_def)
  have c0: "command_bytes ICSP_COMMAND_LOAD_PC 0 = [0x80, 0x00, 0x00, 0x00]"
    by (simp add: command_bytes_def payload_bytes_def ICSP_COMMAND_LOAD_PC_def)
  have n63: "unat (of_nat FLASH_ROW_WORDS - 1 :: u32) = 63"
    by (simp add: FLASH_ROW_WORDS_def)
  have m: "map (\<lambda>i. Spi_Write (ICSP_COMMAND_LOAD_DATA_INCPC
                 # payload_bytes (ucast (replicate 64 (0xAAAA :: u16) ! i)))) [0..<63]
           = replicate 63 (Spi_Write [0x02, 0x01, 0x55, 0x54])"
    by (rule nth_equalityI) (simp_all add: pb ICSP_COMMAND_LOAD_DATA_INCPC_def)
  show ?thesis
    unfolding handle_write_page_def Let_def split_def addr data FLASH_ROW_BYTES_def page_words_AA
    using assms(1)
    by (simp add: trace_send_ok trace_program_page trace_enter_lvp n63 m
        pb c0 ICSP_COMMAND_PAGE_ERASE_def ICSP_COMMAND_LOAD_DATA_def
        ICSP_COMMAND_BEGIN_PROG_INT_def)
qed

lemma handle_write_page_fields:
  "stdin (handle_write_page req s) = stdin s"
  "ledPin (handle_write_page req s) = ledPin s"
  "\<not> unat (req_len req) < 132 \<Longrightarrow> lvp_active (handle_write_page req s)"
  by (simp_all add: handle_write_page_def Let_def split_def proto_send_ok_def
      proto_send_error_def FLASH_ROW_BYTES_def)

text \<open>
  Claim C4. One turn of the main loop on the WRITE_PAGE frame with command \<open>0x03\<close>, length
  132, address 0, 128 data bytes \<open>0xAA\<close> and its valid CRC \<open>0x95\<close>: the request is accepted,
  and after the LED is switched on and LVP is entered (no event if the session is active
  already) the engine clocks out, in this order, load PC of 0, the page-erase opcode (with
  its 11 ms), 63 load-data-with-increment commands with payload \<open>0xAAAA\<close>, one plain
  load-data command with payload \<open>0xAAAA\<close>, and one begin-programming opcode (with its
  3 ms); then the response frame with status \<open>0x00\<close>, length 0 and its CRC is written and
  the LED is switched off.
\<close>

theorem write_page_end_to_end:
  assumes "length (req_payload req) = PROTO_MAX_PAYLOAD"
    and "stdin s = map uint ([0x03, 0x84, 0x00 :: u8] @ [0x00, 0x00, 0x00, 0x00]
                             @ replicate 128 0xAA @ [0x95]) @- rest"
  shows "proto_crc8 ([0x03, 0x84, 0x00] @ [0x00, 0x00, 0x00, 0x00] @ replicate 128 0xAA) 135 = 0x95 \<and>
         (\<exists>req' s'. main_iteration req s = Some (req', s') \<and>
            trace s' =
              trace s @ [Gpio_Put (ledPin s) True] @ enter_lvp_events s
              @ [Spi_Write [0x80, 0x00, 0x00, 0x00], Spi_Write [0xF0], Sleep_Ms 11]
              @ replicate 63 (Spi_Write [0x02, 0x01, 0x55, 0x54])
              @ [Spi_Write [0x00, 0x01, 0x55, 0x54], Spi_Write [0xE0], Sleep_Ms 3]
              @ map Putchar [0x00, 0x00, 0x00, 0x00] @ [Stdio_Flush]
              @ [Gpio_Put (ledPin s) False] \<and>
            stdin s' = rest \<and> lvp_active s')"
proof -
  let ?body = "[0x00, 0x00, 0x00, 0x00] @ replicate 128 (0xAA :: u8)"
  let ?req = "req\<lparr>req_cmd := 0x03, req_len := 132,
                  req_payload := ?body @ drop (unat (132 :: u16)) (req_payload req)\<rparr>"
  let ?s1 = "s\<lparr>stdin := rest\<rparr>"
  let ?s2 = "gpio_put (ledPin ?s1) True ?s1"
  have crc: "proto_crc8 ([0x03, 0x84, 0x00] @ ?body) 135 = 0x95"
    using write_page_crc by (simp add: proto_crc8_spec)
  have "proto_read_request req s = Some (True, ?req, ?s1)"
  proof (rule proto_read_request_frame)
    show "unat (132 :: u16) \<le> PROTO_MAX_PAYLOAD" by (simp add: PROTO_MAX_PAYLOAD_def)
    show "length ?body = unat (132 :: u16)" by simp
    show "unat (132 :: u16) \<le> length (req_payload req)"
      by (simp add: assms(1) PROTO_MAX_PAYLOAD_def)
    have "proto_crc8 ([0x03, ucast (132 :: u16), ucast (drop_bit 8 (132 :: u16))] @ ?body)
            (3 + unat (132 :: u16)) = 0x95"
      using crc by simp
    then show "stdin s = map uint ([0x03, ucast (132 :: u16), ucast (drop_bit 8 (132 :: u16))]
                  @ ?body
                  @ [proto_crc8 ([0x03, ucast (132 :: u16), ucast (drop_bit 8 (132 :: u16))]
                                 @ ?body) (3 + unat (132 :: u16))]) @- rest"
      by (simp only: assms(2)) simp
  qed
  moreover have "dispatch ?req ?s2 = handle_write_page ?req ?s2"
    by (simp add: dispatch_def CMD_DIAG_def CMD_ERASE_def CMD_WRITE_PAGE_def)
  moreover have "trace (handle_write_page ?req ?s2) =
           trace ?s2 @ enter_lvp_events ?s2
           @ [Spi_Write [0x80, 0x00, 0x00, 0x00], Spi_Write [0xF0], Sleep_Ms 11]
           @ replicate 63 (Spi_Write [0x02, 0x01, 0x55, 0x54])
           @ [Spi_Write [0x00, 0x01, 0x55, 0x54], Spi_Write [0xE0], Sleep_Ms 3]
           @ map Putchar [0x00, 0x00, 0x00, 0x00] @ [Stdio_Flush]"
    by (rule trace_handle_write_page_AA [where tail = "drop (unat (132 :: u16)) (req_payload req)"])
       simp_all
  moreover have "enter_lvp_events ?s2 = enter_lvp_events s"
    by (simp add: enter_lvp_events_def hw_defs)
  moreover have "lvp_active (handle_write_page ?req ?s2)"
    by (rule handle_write_page_fields) simp
  ultimately show ?thesis
    using crc
    by (simp add: main_iteration_def Let_def handle_write_page_fields hw_defs)
qed

theorem write_page_end_to_end_witness:
  "length (req_payload example_request) = PROTO_MAX_PAYLOAD \<and>
   (\<exists>req' s'. main_iteration example_request
        (example_state\<lparr>stdin := map uint write_page_frame @- sconst (- 1)\<rparr>) = Some (req', s') \<and>
      trace s' =
        [Gpio_Put 25 True, Gpio_Put 29 False, Sleep_Ms 50,
         Spi_Write [0x4D, 0x43, 0x48, 0x50], Sleep_Ms 5,
         Spi_Write [0x80, 0x00, 0x00, 0x00], Spi_Write [0xF0], Sleep_Ms 11]
        @ replicate 63 (Spi_Write [0x02, 0x01, 0x55, 0x54])
        @ [Spi_Write [0x00, 0x01, 0x55, 0x54], Spi_Write [0xE0], Sleep_Ms 3,
           Putchar 0x00, Putchar 0x00, Putchar 0x00, Putchar 0x00, Stdio_Flush,
           Gpio_Put 25 False] \<and>
      stdin s' = sconst (- 1) \<and> lvp_active s')"
  using write_page_end_to_end [of example_request
      "example_state\<lparr>stdin := map uint write_page_frame @- sconst (- 1)\<rparr>" "sconst (- 1)"]
  by (simp add: example_request_def PROTO_MAX_PAYLOAD_def example_state_def write_page_frame_def
      enter_lvp_events_def MCHP_def)

subsection \<open>Reading\<close>

lemma length_successive_reads [simp]: "length (fst (successive_reads k s)) = k"
  by (induction k arbitrary: s) (simp_all add: split_def Let_def)

lemma icsp_cmd_read_data_state:
  "snd (icsp_cmd_read_data inc s) =
     (if dataInPin s = - 1 then s
      else s\<lparr>miso := sdrop 3 (miso s), trace := trace s @ read_data_events inc s\<rparr>)"
  by (simp add: icsp_cmd_read_data_def read_data_events_def Let_def hw_defs)

lemma read_data_pins [simp]:
  "dataInPin (snd (icsp_cmd_read_data inc s)) = dataInPin s"
  "dataOutPin (snd (icsp_cmd_read_data inc s)) = dataOutPin s"
  by (simp_all add: icsp_cmd_read_data_state)
























end
